theory Spec2Isabelle
  imports Complex_Main "HOL-Library.Multiset" "HOL-Library.Char_ord" "HOL-Library.List_Lexorder"
    "HOL-Library.Log_Nat"
begin

section \<open>GuardianCGM drift monitoring: data model\<close>

text \<open>
  Shallow embedding of \<^verbatim>\<open>src/GuardianCGM/05_Drift_Monitoring_Strategy.py\<close>.
  Python floats are reals here. The percentages of the clinical grid are rounded to
  double precision at every operation, as the code computes them; the other
  quantities (errors, RMSE, PSI) are idealised as exact. A null or NaN cell of a table
  is \<open>None\<close>. Python exceptions are values of \<open>py_error\<close>, returned in the left
  summand.
\<close>

datatype py_error = KeyError | ValueError | ZeroDivisionError

text \<open>\<^verbatim>\<open>class MonitoringThresholds\<close>, with its defaults.\<close>

record MonitoringThresholds =
  rmse_warning :: real
  rmse_critical :: real
  mae_warning :: real
  mae_critical :: real
  clarke_ab_min :: real
  ks_test_alpha :: real
  psi_warning :: real
  psi_critical :: real
  subgroup_rmse_disparity_max :: real
  missing_rate_max :: real
  outlier_rate_max :: real
  retraining_required_if :: "string list"

definition default_thresholds :: MonitoringThresholds where
  "default_thresholds =
     \<lparr>rmse_warning = 7, rmse_critical = 9, mae_warning = 11 / 2, mae_critical = 7,
      clarke_ab_min = 95, ks_test_alpha = 1 / 100, psi_warning = 1 / 10,
      psi_critical = 1 / 4, subgroup_rmse_disparity_max = 2,
      missing_rate_max = 5 / 100, outlier_rate_max = 2 / 100,
      retraining_required_if =
        [''rmse_critical_exceeded'', ''clarke_ab_below_threshold'',
         ''multiple_critical_alerts'']\<rparr>"

text \<open>
  \<^verbatim>\<open>class DriftAlert\<close>. The field \<^verbatim>\<open>value\<close> is \<open>alert_value\<close> here. The
  rendered \<^verbatim>\<open>message\<close> and the \<^verbatim>\<open>metadata\<close> dictionary are presentation only
  and are left to the extension part of the record: the retraining decision below is
  polymorphic in it.
\<close>

record DriftAlert =
  timestamp :: string
  severity :: string
  category :: string
  metric :: string
  alert_value :: real
  threshold :: real

section \<open>Retraining decision\<close>

text \<open>
  \<^verbatim>\<open>_evaluate_retraining_need\<close>, lines 652-678. The \<^verbatim>\<open>for\<close> loop with its two
  early returns is \<open>immediate_trigger\<close>; the counts are the two generator sums.
\<close>

definition critical_count :: "'a DriftAlert_scheme list \<Rightarrow> nat" where
  "critical_count alerts = length (filter (\<lambda>a. severity a = ''CRITICAL'') alerts)"

definition warning_count :: "'a DriftAlert_scheme list \<Rightarrow> nat" where
  "warning_count alerts = length (filter (\<lambda>a. severity a = ''WARNING'') alerts)"

fun immediate_trigger :: "MonitoringThresholds \<Rightarrow> 'a DriftAlert_scheme list \<Rightarrow> bool" where
  "immediate_trigger th [] = False"
| "immediate_trigger th (a # alerts) =
     (if metric a = ''rmse'' \<and> severity a = ''CRITICAL'' then True
      else if metric a = ''clarke_ab_percentage'' \<and> alert_value a < clarke_ab_min th then True
      else immediate_trigger th alerts)"

definition evaluate_retraining_need ::
  "MonitoringThresholds \<Rightarrow> 'a DriftAlert_scheme list \<Rightarrow> bool" where
  "evaluate_retraining_need th alerts =
     (if immediate_trigger th alerts then True
      else if critical_count alerts \<ge> 3 then True
      else if warning_count alerts \<ge> 5 then True
      else False)"

text \<open>The two unconditional triggers, as predicates of one alert.\<close>

definition rmse_critical_alert :: "'a DriftAlert_scheme \<Rightarrow> bool" where
  "rmse_critical_alert a \<longleftrightarrow> metric a = ''rmse'' \<and> severity a = ''CRITICAL''"

definition clarke_below_alert :: "MonitoringThresholds \<Rightarrow> 'a DriftAlert_scheme \<Rightarrow> bool" where
  "clarke_below_alert th a \<longleftrightarrow>
     metric a = ''clarke_ab_percentage'' \<and> alert_value a < clarke_ab_min th"

definition new_alert :: "string \<Rightarrow> string \<Rightarrow> string \<Rightarrow> string \<Rightarrow> real \<Rightarrow> real \<Rightarrow> DriftAlert" where
  "new_alert now sev cat m v t =
     \<lparr>timestamp = now, severity = sev, category = cat, metric = m,
      alert_value = v, threshold = t\<rparr>"

section \<open>Tables\<close>

text \<open>
  A pandas table: the names of its columns and its rows, each row giving the cell of
  every column (only the cells of the named columns are read). \<open>len(data)\<close> is
  \<open>length (rows data)\<close>, \<open>data[c]\<close> is \<open>column data c\<close>.
\<close>

type_synonym cell = "real option"

record DataFrame =
  columns :: "string list"
  rows :: "(string \<Rightarrow> cell) list"

definition column :: "DataFrame \<Rightarrow> string \<Rightarrow> cell list" where
  "column data c = map (\<lambda>r. r c) (rows data)"

fun dropna :: "cell list \<Rightarrow> real list" where
  "dropna [] = []"
| "dropna (None # xs) = dropna xs"
| "dropna (Some v # xs) = v # dropna xs"

definition feature_cols :: "string list" where
  "feature_cols =
     [''glucose_raw'', ''glucose_smooth'', ''velocity'', ''acceleration'',
      ''volatility_1h'', ''lag_15m'', ''lag_30m'', ''lag_60m'']"

text \<open>\<open>data[self.feature_cols]\<close>, row by row; the caller checks that the columns exist.\<close>

definition features_of :: "DataFrame \<Rightarrow> cell list list" where
  "features_of data = map (\<lambda>r. map r feature_cols) (rows data)"

text \<open>
  A count divided by a count, on numpy scalars and pandas series: with a zero divisor
  the result is NaN and nothing is raised (at every use below the count is at most
  the divisor, so the divisor is 0 only when the count is). A comparison with NaN is
  false.
\<close>

definition rate :: "nat \<Rightarrow> nat \<Rightarrow> cell" where
  "rate k n = (if n = 0 then None else Some (real k / real n))"

definition exceeds :: "cell \<Rightarrow> real \<Rightarrow> bool" where
  "exceeds x t = (case x of None \<Rightarrow> False | Some v \<Rightarrow> v > t)"

section \<open>Double precision\<close>

text \<open>
  Rounding of a real to the nearest IEEE 754 double, ties to the even significand:
  \<open>binade x\<close> is the exponent \<open>e\<close> with \<open>2^e \<le> x < 2^(e+1)\<close>, the spacing of the
  doubles there is \<open>2^(e-52)\<close>, and \<open>x\<close> is rounded to a multiple of it. Overflow and
  subnormal numbers are left out: the quantities rounded below are ratios of row
  counts and percentages between 0 and 200.
\<close>

definition round_half_even :: "real \<Rightarrow> int" where
  "round_half_even x =
     (let f = \<lfloor>x\<rfloor>; d = x - of_int f
      in if d < 1 / 2 then f else if d > 1 / 2 then f + 1 else if even f then f else f + 1)"

definition pow2 :: "int \<Rightarrow> real" where
  "pow2 e = (if e \<ge> 0 then 2 ^ nat e else 1 / 2 ^ nat (- e))"

definition binade :: "real \<Rightarrow> int" where
  "binade x =
     (if x \<ge> 1 then int (floorlog 2 (nat \<lfloor>x\<rfloor>)) - 1
      else - int (floorlog 2 (nat \<lceil>1 / x\<rceil> - 1)))"

definition to_double :: "real \<Rightarrow> real" where
  "to_double x =
     (if x = 0 then 0
      else let ulp = pow2 (binade \<bar>x\<bar> - 52)
           in sgn x * (of_int (round_half_even (\<bar>x\<bar> / ulp)) * ulp))"

text \<open>
  Python's \<^verbatim>\<open>/\<close> on two integers (the divisor not 0), and \<^verbatim>\<open>*\<close> and \<^verbatim>\<open>+\<close> on two
  floats: the exact result, rounded.
\<close>

definition int_truediv :: "nat \<Rightarrow> nat \<Rightarrow> real" where
  "int_truediv a b = to_double (real a / real b)"

definition float_mul :: "real \<Rightarrow> real \<Rightarrow> real" where
  "float_mul a b = to_double (a * b)"

definition float_add :: "real \<Rightarrow> real \<Rightarrow> real" where
  "float_add a b = to_double (a + b)"

section \<open>Clinical grid\<close>

datatype zone = ZoneA | ZoneB | ZoneC | ZoneD | ZoneE

text \<open>\<^verbatim>\<open>_clarke_zone\<close>, lines 567-590: six tests in order, each an early return.\<close>

definition clarke_zone :: "real \<Rightarrow> real \<Rightarrow> zone" where
  "clarke_zone true_glucose pred_glucose =
     (if true_glucose \<le> 70 \<and> pred_glucose \<le> 70 then ZoneA
      else if \<bar>pred_glucose - true_glucose\<bar> \<le> 0.2 * true_glucose then ZoneA
      else if (true_glucose \<le> 70 \<and> pred_glucose \<ge> 180)
              \<or> (true_glucose \<ge> 180 \<and> pred_glucose \<le> 70) then ZoneE
      else if (true_glucose < 70 \<and> pred_glucose > 180)
              \<or> (true_glucose > 240 \<and> pred_glucose < 70) then ZoneD
      else if (70 \<le> true_glucose \<and> true_glucose \<le> 290) \<and> pred_glucose \<le> 70 then ZoneC
      else if (70 \<le> true_glucose \<and> true_glucose \<le> 180) \<and> pred_glucose \<ge> 240 then ZoneC
      else ZoneB)"

record ClarkeMetrics =
  zone_a_pct :: real
  zone_b_pct :: real
  zone_c_pct :: real
  zone_d_pct :: real
  zone_e_pct :: real
  zone_counts :: "zone \<Rightarrow> nat"

text \<open>The loop of \<^verbatim>\<open>_calculate_clarke_metrics\<close>: \<^verbatim>\<open>zones[zone] += 1\<close> per pair.\<close>

fun count_zones :: "(real \<times> real) list \<Rightarrow> (zone \<Rightarrow> nat) \<Rightarrow> (zone \<Rightarrow> nat)" where
  "count_zones [] zones = zones"
| "count_zones ((true_val, pred_val) # ps) zones =
     count_zones ps
       (zones(clarke_zone true_val pred_val := zones (clarke_zone true_val pred_val) + 1))"

text \<open>
  \<^verbatim>\<open>_calculate_clarke_metrics\<close>, lines 549-565. The counts and \<^verbatim>\<open>n_total\<close> are
  Python integers, so \<^verbatim>\<open>zones['A'] / n_total\<close> raises \<^verbatim>\<open>ZeroDivisionError\<close> when
  there is no row. Otherwise each percentage is the rounded quotient, times 100,
  rounded again.
\<close>

definition calculate_clarke_metrics :: "real list \<Rightarrow> real list \<Rightarrow> py_error + ClarkeMetrics" where
  "calculate_clarke_metrics y_true y_pred =
     (let zones = count_zones (zip y_true y_pred) (\<lambda>z. 0);
          n_total = length y_true
      in if n_total = 0 then Inl ZeroDivisionError
         else Inr \<lparr>zone_a_pct = float_mul (int_truediv (zones ZoneA) n_total) 100,
                   zone_b_pct = float_mul (int_truediv (zones ZoneB) n_total) 100,
                   zone_c_pct = float_mul (int_truediv (zones ZoneC) n_total) 100,
                   zone_d_pct = float_mul (int_truediv (zones ZoneD) n_total) 100,
                   zone_e_pct = float_mul (int_truediv (zones ZoneE) n_total) 100,
                   zone_counts = zones\<rparr>)"

section \<open>Population stability index\<close>

text \<open>A bin edge: a number, or one of the two infinities put at the ends.\<close>

datatype edge = NegInf | Edge real | PosInf

fun above_edge :: "edge \<Rightarrow> real \<Rightarrow> bool" where
  "above_edge NegInf x = True"
| "above_edge (Edge b) x = (b < x)"
| "above_edge PosInf x = False"

fun upto_edge :: "real \<Rightarrow> edge \<Rightarrow> bool" where
  "upto_edge x NegInf = False"
| "upto_edge x (Edge b) = (x \<le> b)"
| "upto_edge x PosInf = True"

text \<open>\<^verbatim>\<open>np.linspace(start, stop, num)\<close> for \<open>num > 1\<close>.\<close>

definition linspace :: "real \<Rightarrow> real \<Rightarrow> nat \<Rightarrow> real list" where
  "linspace start stop num =
     map (\<lambda>i. start + real i * ((stop - start) / real (num - 1))) [0..<num]"

text \<open>Lines 446-448, with \<^verbatim>\<open>bins = 10\<close>: eleven edges, the first and last made infinite.\<close>

definition psi_breakpoints :: "real list \<Rightarrow> edge list" where
  "psi_breakpoints reference =
     (let pts = linspace (Min (set reference)) (Max (set reference)) (10 + 1)
      in NegInf # map Edge (butlast (tl pts)) @ [PosInf])"

text \<open>
  \<^verbatim>\<open>pd.cut(xs, bins=breakpoints).value_counts(sort=False)\<close>: the bins are the
  intervals \<open>(lo, hi]\<close> between successive edges, in order.
\<close>

definition value_counts :: "edge list \<Rightarrow> real list \<Rightarrow> nat list" where
  "value_counts breakpoints xs =
     map (\<lambda>(lo, hi). length (filter (\<lambda>x. above_edge lo x \<and> upto_edge x hi) xs))
       (zip breakpoints (tl breakpoints))"

definition replace_zero :: "cell \<Rightarrow> cell" where
  "replace_zero p = (if p = Some 0 then Some 0.0001 else p)"

text \<open>The proportions of the bins, zeros replaced (lines 454-459).\<close>

definition bin_percents :: "edge list \<Rightarrow> real list \<Rightarrow> cell list" where
  "bin_percents breakpoints xs =
     map (\<lambda>c. replace_zero (rate c (length xs))) (value_counts breakpoints xs)"

definition psi_term :: "cell \<Rightarrow> cell \<Rightarrow> cell" where
  "psi_term cur ref =
     (case (cur, ref) of
        (Some c, Some r) \<Rightarrow> Some ((c - r) * ln (c / r))
      | _ \<Rightarrow> None)"

text \<open>
  \<^verbatim>\<open>_calculate_psi\<close>, lines 437-464, on two series without nulls. \<^verbatim>\<open>pd.cut\<close>
  refuses edges that are not distinct (\<^verbatim>\<open>ValueError\<close>), which is the case when the
  reference is empty or constant. \<^verbatim>\<open>np.sum\<close> of a pandas series leaves NaN terms out.
\<close>

definition calculate_psi :: "real list \<Rightarrow> real list \<Rightarrow> py_error + real" where
  "calculate_psi reference current =
     (if reference = [] then Inl ValueError
      else if Min (set reference) = Max (set reference) then Inl ValueError
      else
        let breakpoints = psi_breakpoints reference;
            ref_percents = bin_percents breakpoints reference;
            cur_percents = bin_percents breakpoints current
        in Inr (sum_list (dropna (map2 psi_term cur_percents ref_percents))))"

section \<open>Collaborators\<close>

text \<open>
  The predictor, the two scipy routines and the clock are outside the repository and
  are parameters: \<open>predict\<close> gives the prediction for one row of the feature table
  (one prediction per row, as its interface requires), \<open>zscore\<close> and \<open>ks_2samp\<close>
  stand for \<^verbatim>\<open>scipy.stats.zscore\<close> and \<^verbatim>\<open>scipy.stats.ks_2samp\<close>, and \<open>clock\<close>
  is the reading of \<^verbatim>\<open>datetime.now().isoformat()\<close>, taken once for a cycle. Their
  own failures, which the code lets through unchanged, are not part of the embedding.
\<close>

record Collaborators =
  predict :: "cell list \<Rightarrow> real"
  zscore :: "real list list \<Rightarrow> cell list list"
  ks_2samp :: "real list \<Rightarrow> real list \<Rightarrow> real \<times> real"
  clock :: string

section \<open>Data quality\<close>

definition null_cells :: "cell list list \<Rightarrow> nat" where
  "null_cells X = length (filter (\<lambda>c. c = None) (concat X))"

text \<open>\<^verbatim>\<open>.dropna()\<close> on a table: the rows without a null cell.\<close>

definition complete_rows :: "cell list list \<Rightarrow> real list list" where
  "complete_rows X = map (map the) (filter (\<lambda>r. None \<notin> set r) X)"

definition cells_above :: "real \<Rightarrow> cell list list \<Rightarrow> nat" where
  "cells_above t Z = length (filter (\<lambda>c. exceeds c t) (concat Z))"

definition out_of_range :: "cell \<Rightarrow> bool" where
  "out_of_range c = (case c of None \<Rightarrow> False | Some v \<Rightarrow> v < 40 \<or> v > 400)"

text \<open>
  \<^verbatim>\<open>_check_data_quality\<close>, lines 299-359. \<^verbatim>\<open>data[self.feature_cols]\<close> raises
  \<^verbatim>\<open>KeyError\<close> when a feature column is absent.
\<close>

definition check_data_quality ::
  "(real list list \<Rightarrow> cell list list) \<Rightarrow> string \<Rightarrow> MonitoringThresholds \<Rightarrow> DataFrame
     \<Rightarrow> py_error + DriftAlert list" where
  "check_data_quality zs now th data =
     (if \<not> set feature_cols \<subseteq> set (columns data) then Inl KeyError
      else
        let X = features_of data;
            missing_rate = rate (null_cells X) (length (rows data) * length feature_cols);
            missing_alerts =
              (case missing_rate of
                 None \<Rightarrow> []
               | Some v \<Rightarrow>
                   if v > missing_rate_max th
                   then [new_alert now ''WARNING'' ''DATA_QUALITY'' ''missing_rate'' v
                           (missing_rate_max th)]
                   else []);
            z_scores = map (map (map_option abs)) (zs (complete_rows X));
            outlier_rate = rate (cells_above 4 z_scores) (length (concat z_scores));
            outlier_alerts =
              (case outlier_rate of
                 None \<Rightarrow> []
               | Some v \<Rightarrow>
                   if v > outlier_rate_max th
                   then [new_alert now ''WARNING'' ''DATA_QUALITY'' ''outlier_rate'' v
                           (outlier_rate_max th)]
                   else []);
            range_alerts =
              (if ''glucose_raw'' \<in> set (columns data) then
                 let n_out = length (filter out_of_range (column data ''glucose_raw''))
                 in if n_out > 0
                    then [new_alert now ''CRITICAL'' ''DATA_QUALITY'' ''sensor_range_violations''
                            (real n_out) 0]
                    else []
               else [])
        in Inr (missing_alerts @ outlier_alerts @ range_alerts))"

section \<open>Statistical drift\<close>

text \<open>The body of the loop of \<^verbatim>\<open>_check_statistical_drift\<close> for one feature.\<close>

definition feature_drift ::
  "(real list \<Rightarrow> real list \<Rightarrow> real \<times> real) \<Rightarrow> string \<Rightarrow> MonitoringThresholds \<Rightarrow> DataFrame
     \<Rightarrow> DataFrame \<Rightarrow> string \<Rightarrow> py_error + DriftAlert list" where
  "feature_drift ks now th reference data feature =
     (if feature \<notin> set (columns data) \<or> feature \<notin> set (columns reference) then Inr []
      else
        let ref_values = dropna (column reference feature);
            new_values = dropna (column data feature)
        in if length new_values < 30 then Inr []
           else
             let (ks_stat, ks_pval) = ks ref_values new_values;
                 ks_alerts =
                   (if ks_pval < ks_test_alpha th
                    then [new_alert now (if ks_pval < 0.001 then ''CRITICAL'' else ''WARNING'')
                            ''STATISTICAL_DRIFT'' (''ks_test_'' @ feature) ks_stat
                            (ks_test_alpha th)]
                    else [])
             in case calculate_psi ref_values new_values of
                  Inl e \<Rightarrow> Inl e
                | Inr psi \<Rightarrow>
                    Inr (ks_alerts @
                      (if psi > psi_critical th
                       then [new_alert now ''CRITICAL'' ''STATISTICAL_DRIFT''
                               (''psi_'' @ feature) psi (psi_critical th)]
                       else if psi > psi_warning th
                       then [new_alert now ''WARNING'' ''STATISTICAL_DRIFT''
                               (''psi_'' @ feature) psi (psi_warning th)]
                       else [])))"

text \<open>A loop that appends the alerts of each step and stops at the first exception.\<close>

fun collect_alerts :: "('a \<Rightarrow> py_error + DriftAlert list) \<Rightarrow> 'a list \<Rightarrow> py_error + DriftAlert list" where
  "collect_alerts f [] = Inr []"
| "collect_alerts f (x # xs) =
     (case f x of
        Inl e \<Rightarrow> Inl e
      | Inr alerts \<Rightarrow>
          (case collect_alerts f xs of
             Inl e \<Rightarrow> Inl e
           | Inr rest \<Rightarrow> Inr (alerts @ rest)))"

definition check_statistical_drift ::
  "(real list \<Rightarrow> real list \<Rightarrow> real \<times> real) \<Rightarrow> string \<Rightarrow> MonitoringThresholds \<Rightarrow> DataFrame
     \<Rightarrow> DataFrame \<Rightarrow> py_error + DriftAlert list" where
  "check_statistical_drift ks now th reference data =
     collect_alerts (feature_drift ks now th reference data) feature_cols"

section \<open>Performance\<close>

record PerformanceMetrics =
  rmse :: real
  mae :: real
  n_predictions :: nat
  clarke :: ClarkeMetrics

definition root_mean_square :: "real list \<Rightarrow> real" where
  "root_mean_square es = sqrt (sum_list (map (\<lambda>e. e ^ 2) es) / real (length es))"

definition mean_abs :: "real list \<Rightarrow> real" where
  "mean_abs es = sum_list (map abs es) / real (length es)"

text \<open>
  The ground truth and the predictions of a table. The ground truth is read with
  \<open>the\<close>: the embedding covers tables whose ground-truth cells are numbers.
\<close>

definition ground_truth :: "DataFrame \<Rightarrow> real list" where
  "ground_truth data = map the (column data ''target_30min'')"

definition predictions :: "(cell list \<Rightarrow> real) \<Rightarrow> DataFrame \<Rightarrow> real list" where
  "predictions pr data = map pr (features_of data)"

definition prediction_error :: "(cell list \<Rightarrow> real) \<Rightarrow> DataFrame \<Rightarrow> real list" where
  "prediction_error pr data = map2 (\<lambda>p t. p - t) (predictions pr data) (ground_truth data)"

text \<open>The RMSE checks, lines 496-523.\<close>

definition rmse_alerts :: "string \<Rightarrow> MonitoringThresholds \<Rightarrow> real \<Rightarrow> DriftAlert list" where
  "rmse_alerts now th r =
     (if r > rmse_critical th
      then [new_alert now ''CRITICAL'' ''PERFORMANCE'' ''rmse'' r (rmse_critical th)]
      else if r > rmse_warning th
      then [new_alert now ''WARNING'' ''PERFORMANCE'' ''rmse'' r (rmse_warning th)]
      else [])"

text \<open>
  \<^verbatim>\<open>_check_performance\<close>, lines 470-547. Without the target column the metrics are
  the empty dictionary (\<open>None\<close>). With no row, numpy's mean is NaN, no RMSE alert is
  built, and the clinical grid raises; the result here is that exception too.
\<close>

definition check_performance ::
  "(cell list \<Rightarrow> real) \<Rightarrow> string \<Rightarrow> MonitoringThresholds \<Rightarrow> DataFrame
     \<Rightarrow> py_error + (PerformanceMetrics option \<times> DriftAlert list)" where
  "check_performance pr now th data =
     (if ''target_30min'' \<notin> set (columns data) then Inr (None, [])
      else if \<not> set feature_cols \<subseteq> set (columns data) then Inl KeyError
      else
        let y_true = ground_truth data;
            y_pred = predictions pr data;
            r = root_mean_square (prediction_error pr data);
            m = mean_abs (prediction_error pr data)
        in case calculate_clarke_metrics y_true y_pred of
             Inl e \<Rightarrow> Inl e
           | Inr clarke_metrics \<Rightarrow>
               let zone_ab_pct =
                     float_add (zone_a_pct clarke_metrics) (zone_b_pct clarke_metrics)
               in Inr (Some \<lparr>rmse = r, mae = m, n_predictions = length y_pred,
                             clarke = clarke_metrics\<rparr>,
                       rmse_alerts now th r @
                       (if zone_ab_pct < clarke_ab_min th
                        then [new_alert now ''CRITICAL'' ''PERFORMANCE'' ''clarke_ab_percentage''
                                zone_ab_pct (clarke_ab_min th)]
                        else [])))"

section \<open>Bias drift\<close>

text \<open>
  \<^verbatim>\<open>_check_bias_drift\<close> works on a copy of the table that has the two columns
  \<^verbatim>\<open>prediction_error\<close> and \<^verbatim>\<open>absolute_error\<close> added.
\<close>

definition with_errors :: "DataFrame \<Rightarrow> real list \<Rightarrow> DataFrame" where
  "with_errors data errs =
     \<lparr>columns = columns data @ [''prediction_error'', ''absolute_error''],
      rows = map2 (\<lambda>r e. r(''prediction_error'' := Some e, ''absolute_error'' := Some \<bar>e\<bar>))
               (rows data) errs\<rparr>"

text \<open>
  \<^verbatim>\<open>groupby(demo_col)\<close> followed by the RMSE of each group: the groups are the
  distinct non-null labels (their order plays no part in the maximum and minimum).
\<close>

definition subgroup_rmse :: "DataFrame \<Rightarrow> string \<Rightarrow> (real \<times> real) list" where
  "subgroup_rmse data demo_col =
     (let labels = column data demo_col;
          errs = column data ''prediction_error''
      in map (\<lambda>g. (g, root_mean_square
                         (dropna (map snd (filter (\<lambda>(l, e). l = Some g) (zip labels errs))))))
           (remdups (dropna labels)))"

text \<open>
  The body of the loop over the demographic columns, lines 613-644. When the column
  has no non-null label there is no group: \<^verbatim>\<open>groupby(...).apply(...)\<close> is an empty
  table, \<^verbatim>\<open>disparity\<close> is an empty series, and the \<^verbatim>\<open>if\<close> of line 626 raises
  \<^verbatim>\<open>ValueError\<close> (the truth value of a series).
\<close>

definition bias_alerts ::
  "string \<Rightarrow> MonitoringThresholds \<Rightarrow> DataFrame \<Rightarrow> string \<Rightarrow> py_error + DriftAlert list" where
  "bias_alerts now th data demo_col =
     (if demo_col \<notin> set (columns data) then Inr []
      else
        let groups = map snd (subgroup_rmse data demo_col)
        in if groups = [] then Inl ValueError
           else
             let max_rmse = Max (set groups);
                 min_rmse = Min (set groups);
                 disparity = max_rmse - min_rmse
             in if disparity > subgroup_rmse_disparity_max th
                then Inr [new_alert now ''WARNING'' ''BIAS_DRIFT''
                            (''subgroup_disparity_'' @ demo_col)
                            disparity (subgroup_rmse_disparity_max th)]
                else Inr [])"

definition check_bias_drift ::
  "(cell list \<Rightarrow> real) \<Rightarrow> string \<Rightarrow> MonitoringThresholds \<Rightarrow> DataFrame \<Rightarrow> string list
     \<Rightarrow> py_error + DriftAlert list" where
  "check_bias_drift pr now th data demographic_cols =
     (if ''target_30min'' \<notin> set (columns data) then Inr []
      else if \<not> set feature_cols \<subseteq> set (columns data) then Inl KeyError
      else
        let data' = with_errors data (prediction_error pr data)
        in collect_alerts (bias_alerts now th data') demographic_cols)"

section \<open>One monitoring cycle\<close>

record DriftMonitor =
  thresholds :: MonitoringThresholds
  reference_data :: DataFrame
  alert_history :: "DriftAlert list"

text \<open>
  The status line of \<^verbatim>\<open>_generate_summary\<close>; the rest of the rendered text is not
  modelled. \<^verbatim>\<open>check_drift\<close> always stores the performance metrics, so the summary
  always formats \<^verbatim>\<open>perf.get('rmse', 'N/A')\<close> with \<^verbatim>\<open>.2f\<close>: when the metrics are
  the empty dictionary this formats the string \<^verbatim>\<open>'N/A'\<close> and raises \<^verbatim>\<open>ValueError\<close>.
\<close>

datatype summary_status =
  RETRAINING_REQUIRED | CRITICAL_ISSUES_DETECTED | WARNINGS_DETECTED | ALL_CHECKS_PASSED

record Report =
  report_timestamp :: string
  n_samples :: nat
  report_alerts :: "DriftAlert list"
  report_metrics :: "PerformanceMetrics option"
  retraining_required :: bool
  report_summary :: summary_status

definition generate_summary ::
  "DriftAlert list \<Rightarrow> bool \<Rightarrow> PerformanceMetrics option \<Rightarrow> py_error + summary_status" where
  "generate_summary cycle_alerts retrain perf =
     (let n_critical = critical_count cycle_alerts;
          n_warning = warning_count cycle_alerts;
          status =
            (if retrain then RETRAINING_REQUIRED
             else if n_critical > 0 then CRITICAL_ISSUES_DETECTED
             else if n_warning > 0 then WARNINGS_DETECTED
             else ALL_CHECKS_PASSED)
      in case perf of None \<Rightarrow> Inl ValueError | Some p \<Rightarrow> Inr status)"

text \<open>
  The condition of line 269: \<^verbatim>\<open>demographic_cols\<close> is given and not empty, and every
  column it names is in the table.
\<close>

definition bias_gate :: "string list option \<Rightarrow> DataFrame \<Rightarrow> bool" where
  "bias_gate demographic_cols new_data =
     (case demographic_cols of
        None \<Rightarrow> False
      | Some cols \<Rightarrow> cols \<noteq> [] \<and> list_all (\<lambda>col. col \<in> set (columns new_data)) cols)"

definition bias_stage ::
  "(cell list \<Rightarrow> real) \<Rightarrow> string \<Rightarrow> MonitoringThresholds \<Rightarrow> DataFrame \<Rightarrow> string list option
     \<Rightarrow> py_error + DriftAlert list" where
  "bias_stage pr now th new_data demographic_cols =
     (if bias_gate demographic_cols new_data
      then check_bias_drift pr now th new_data (the demographic_cols)
      else Inr [])"

text \<open>
  \<^verbatim>\<open>check_drift\<close>, lines 217-293. An exception of a stage ends the cycle with the
  monitor unchanged; the alerts are added to the history before the summary is built,
  so an exception of the summary leaves them there. Writing the report to the log
  and to a file belongs to the report sink and is not modelled.
\<close>

definition check_drift ::
  "Collaborators \<Rightarrow> DriftMonitor \<Rightarrow> DataFrame \<Rightarrow> string list option
     \<Rightarrow> (py_error + Report) \<times> DriftMonitor" where
  "check_drift env mon new_data demographic_cols =
     (case check_data_quality (zscore env) (clock env) (thresholds mon) new_data of
        Inl e \<Rightarrow> (Inl e, mon)
      | Inr quality_alerts \<Rightarrow>
     (case check_statistical_drift (ks_2samp env) (clock env) (thresholds mon)
             (reference_data mon) new_data of
        Inl e \<Rightarrow> (Inl e, mon)
      | Inr drift_alerts \<Rightarrow>
     (case check_performance (predict env) (clock env) (thresholds mon) new_data of
        Inl e \<Rightarrow> (Inl e, mon)
      | Inr (perf_metrics, perf_alerts) \<Rightarrow>
     (case bias_stage (predict env) (clock env) (thresholds mon) new_data demographic_cols of
        Inl e \<Rightarrow> (Inl e, mon)
      | Inr bias \<Rightarrow>
          let cycle_alerts = quality_alerts @ drift_alerts @ perf_alerts @ bias;
              retrain = evaluate_retraining_need (thresholds mon) cycle_alerts;
              mon' = mon\<lparr>alert_history := alert_history mon @ cycle_alerts\<rparr>
          in case generate_summary cycle_alerts retrain perf_metrics of
               Inl e \<Rightarrow> (Inl e, mon')
             | Inr status \<Rightarrow>
                 (Inr \<lparr>report_timestamp = clock env, n_samples = length (rows new_data),
                       report_alerts = cycle_alerts, report_metrics = perf_metrics,
                       retraining_required = retrain, report_summary = status\<rparr>,
                  mon')))))"

section \<open>Compliance report\<close>

fun is_prefix :: "string \<Rightarrow> string \<Rightarrow> bool" where
  "is_prefix [] ys = True"
| "is_prefix (x # xs) [] = False"
| "is_prefix (x # xs) (y # ys) = (x = y \<and> is_prefix xs ys)"

text \<open>Python's \<^verbatim>\<open>needle in haystack\<close> on strings.\<close>

fun contains :: "string \<Rightarrow> string \<Rightarrow> bool" where
  "contains needle [] = (needle = [])"
| "contains needle (c # cs) = (is_prefix needle (c # cs) \<or> contains needle cs)"

text \<open>The date filter of \<^verbatim>\<open>generate_pmcf_report\<close>, lines 766-770.\<close>

definition filter_alerts :: "string option \<Rightarrow> string option \<Rightarrow> DriftAlert list \<Rightarrow> DriftAlert list" where
  "filter_alerts start_date end_date history =
     (let after_start =
            (case start_date of
               None \<Rightarrow> history
             | Some s \<Rightarrow> if s = [] then history else filter (\<lambda>a. timestamp a \<ge> s) history)
      in case end_date of
           None \<Rightarrow> after_start
         | Some e \<Rightarrow> if e = [] then after_start else filter (\<lambda>a. timestamp a \<le> e) after_start)"

text \<open>The four counts of the executive summary, lines 784-787.\<close>

record ExecutiveSummary =
  total_monitoring_events :: nat
  critical_alerts :: nat
  warning_alerts :: nat
  retraining_events :: nat

definition generate_pmcf_report :: "DriftMonitor \<Rightarrow> string option \<Rightarrow> string option \<Rightarrow> ExecutiveSummary" where
  "generate_pmcf_report mon start_date end_date =
     (let filtered_alerts = filter_alerts start_date end_date (alert_history mon)
      in \<lparr>total_monitoring_events = length filtered_alerts,
          critical_alerts = length (filter (\<lambda>a. severity a = ''CRITICAL'') filtered_alerts),
          warning_alerts = length (filter (\<lambda>a. severity a = ''WARNING'') filtered_alerts),
          retraining_events =
            length (filter (\<lambda>a. contains ''RETRAINING'' (severity a)) filtered_alerts)\<rparr>)"

section \<open>The clinical grid as the specification words it\<close>






text \<open>The five percentages that the aggregation returns, in the order A to E.\<close>

definition percentages_of :: "py_error + ClarkeMetrics \<Rightarrow> real list" where
  "percentages_of result =
     (case result of
        Inl e \<Rightarrow> []
      | Inr m \<Rightarrow> [zone_a_pct m, zone_b_pct m, zone_c_pct m, zone_d_pct m, zone_e_pct m])"

text \<open>The number of pairs counted in a dictionary of zone counts.\<close>

definition zone_total :: "(zone \<Rightarrow> nat) \<Rightarrow> nat" where
  "zone_total zones = zones ZoneA + zones ZoneB + zones ZoneC + zones ZoneD + zones ZoneE"

section \<open>Concrete inputs\<close>


definition labelled_batch :: "(string \<Rightarrow> cell) list \<Rightarrow> DataFrame" where
  "labelled_batch rs = \<lparr>columns = feature_cols @ [''target_30min''], rows = rs\<rparr>"

definition constant_predictor :: "real \<Rightarrow> cell list \<Rightarrow> real" where
  "constant_predictor v x = v"


text \<open>A proportion that is NaN or strictly positive.\<close>

definition positive_cell :: "cell \<Rightarrow> bool" where
  "positive_cell p = (case p of None \<Rightarrow> True | Some v \<Rightarrow> v > 0)"

section \<open>Observations on a monitor\<close>

text \<open>
  The severities that the checks assign, and the two that \<^verbatim>\<open>DriftAlert\<close> declares
  but that none of them does.
\<close>

definition graded :: "DriftAlert \<Rightarrow> bool" where
  "graded a \<longleftrightarrow> severity a = ''WARNING'' \<or> severity a = ''CRITICAL''"

definition unused_severity :: "DriftAlert \<Rightarrow> bool" where
  "unused_severity a \<longleftrightarrow> severity a = ''INFO'' \<or> severity a = ''RETRAINING_REQUIRED''"

text \<open>The monitor as \<^verbatim>\<open>__init__\<close> leaves it: no alert in the history.\<close>

definition new_monitor :: "MonitoringThresholds \<Rightarrow> DataFrame \<Rightarrow> DriftMonitor" where
  "new_monitor th reference = \<lparr>thresholds = th, reference_data = reference, alert_history = []\<rparr>"

text \<open>A monitor after a sequence of cycles, each with its collaborators, batch and columns.\<close>

fun run_cycles ::
  "DriftMonitor \<Rightarrow> (Collaborators \<times> DataFrame \<times> string list option) list \<Rightarrow> DriftMonitor" where
  "run_cycles mon [] = mon"
| "run_cycles mon ((env, new_data, demographic_cols) # cycles) =
     run_cycles (snd (check_drift env mon new_data demographic_cols)) cycles"

text \<open>The alerts that a cycle reports: those of its report, none when it raised.\<close>

definition produced_alerts :: "py_error + Report \<Rightarrow> DriftAlert list" where
  "produced_alerts result = (case result of Inl e \<Rightarrow> [] | Inr r \<Rightarrow> report_alerts r)"

text \<open>
  The columns of the copy that \<^verbatim>\<open>_check_bias_drift\<close> works on: those of the table
  and the two it adds.
\<close>

definition present_in_copy :: "DataFrame \<Rightarrow> string \<Rightarrow> bool" where
  "present_in_copy data c \<longleftrightarrow>
     c \<in> set (columns data) \<or> c = ''prediction_error'' \<or> c = ''absolute_error''"

text \<open>
  Collaborators for concrete runs: every z-score is 0, the two-sample test finds no
  difference (statistic 0, p-value 1), and the clock reads one fixed time.
\<close>

definition steady_env :: "(cell list \<Rightarrow> real) \<Rightarrow> Collaborators" where
  "steady_env pr =
     \<lparr>predict = pr, zscore = map (map (\<lambda>v. Some 0)), ks_2samp = (\<lambda>reference current. (0, 1)),
      clock = ''2024-01-01T00:00:00''\<rparr>"

text \<open>Whether a cycle returned a report.\<close>

definition is_report :: "py_error + Report \<Rightarrow> bool" where
  "is_report result = (case result of Inl e \<Rightarrow> False | Inr r \<Rightarrow> True)"

text \<open>
  A batch of two rows with the features, the target and the column \<^verbatim>\<open>age_group\<close>
  (but no column \<^verbatim>\<open>bmi_category\<close>), and a predictor that answers the first feature,
  the raw glucose: its errors on the two rows are 1 and 7.
\<close>

definition patient :: "real \<Rightarrow> real \<Rightarrow> real \<Rightarrow> string \<Rightarrow> cell" where
  "patient g target age c =
     (if c = ''target_30min'' then Some target else if c = ''age_group'' then Some age else Some g)"

definition cohort :: DataFrame where
  "cohort = \<lparr>columns = feature_cols @ [''target_30min'', ''age_group''],
             rows = [patient 101 100 0, patient 107 100 1]\<rparr>"

definition persistence_predictor :: "cell list \<Rightarrow> real" where
  "persistence_predictor x = (case x of Some v # rest \<Rightarrow> v | _ \<Rightarrow> 0)"

section \<open>Properties of the retraining decision\<close>

lemma immediate_trigger_iff:
  "immediate_trigger th alerts \<longleftrightarrow>
     (\<exists>a \<in> set alerts. rmse_critical_alert a \<or> clarke_below_alert th a)"
  by (induction alerts) (auto simp: rmse_critical_alert_def clarke_below_alert_def)

lemma critical_count_mset:
  "critical_count alerts = size (filter_mset (\<lambda>a. severity a = ''CRITICAL'') (mset alerts))"
  unfolding critical_count_def by (metis mset_filter size_mset)

lemma warning_count_mset:
  "warning_count alerts = size (filter_mset (\<lambda>a. severity a = ''WARNING'') (mset alerts))"
  unfolding warning_count_def by (metis mset_filter size_mset)

text \<open>
  Claim C1. If the alert list of a cycle contains an alert with metric \<^verbatim>\<open>rmse\<close> and
  severity \<^verbatim>\<open>CRITICAL\<close>, or an alert with metric \<^verbatim>\<open>clarke_ab_percentage\<close> whose
  value is below \<^verbatim>\<open>clarke_ab_min\<close>, the verdict is true, whatever else the list holds.
\<close>

theorem unconditional_trigger_forces_retraining:
  assumes "a \<in> set alerts"
    and "(metric a = ''rmse'' \<and> severity a = ''CRITICAL'')
         \<or> (metric a = ''clarke_ab_percentage'' \<and> alert_value a < clarke_ab_min th)"
  shows "evaluate_retraining_need th alerts = True"
proof -
  from assms have "immediate_trigger th alerts"
    unfolding immediate_trigger_iff rmse_critical_alert_def clarke_below_alert_def by blast
  then show ?thesis by (simp add: evaluate_retraining_need_def)
qed

text \<open>One critical RMSE alert alone; one grid alert at 90 against 95, with one warning.\<close>

theorem unconditional_trigger_forces_retraining_witness:
  "evaluate_retraining_need default_thresholds
     [new_alert ''t'' ''CRITICAL'' ''PERFORMANCE'' ''rmse'' 10 9] = True
   \<and> evaluate_retraining_need default_thresholds
     [new_alert ''t'' ''WARNING'' ''DATA_QUALITY'' ''missing_rate'' (1 / 10) (5 / 100),
      new_alert ''t'' ''CRITICAL'' ''PERFORMANCE'' ''clarke_ab_percentage'' 90 95] = True"
proof -
  have 1: "evaluate_retraining_need default_thresholds
     [new_alert ''t'' ''CRITICAL'' ''PERFORMANCE'' ''rmse'' 10 9] = True"
    by (rule unconditional_trigger_forces_retraining
          [where a = "new_alert ''t'' ''CRITICAL'' ''PERFORMANCE'' ''rmse'' 10 9"])
       (simp_all add: new_alert_def)
  have 2: "evaluate_retraining_need default_thresholds
     [new_alert ''t'' ''WARNING'' ''DATA_QUALITY'' ''missing_rate'' (1 / 10) (5 / 100),
      new_alert ''t'' ''CRITICAL'' ''PERFORMANCE'' ''clarke_ab_percentage'' 90 95] = True"
    by (rule unconditional_trigger_forces_retraining
          [where a = "new_alert ''t'' ''CRITICAL'' ''PERFORMANCE'' ''clarke_ab_percentage'' 90 95"])
       (simp_all add: new_alert_def default_thresholds_def)
  from 1 2 show ?thesis by (rule conjI)
qed

text \<open>
  Claim C2. When no alert of the list is one of the two unconditional triggers, the
  verdict is true if at least 3 alerts are \<^verbatim>\<open>CRITICAL\<close>, otherwise true if at least 5
  are \<^verbatim>\<open>WARNING\<close>, otherwise false; so exactly 2 \<^verbatim>\<open>CRITICAL\<close> alerts with fewer
  than 5 \<^verbatim>\<open>WARNING\<close> alerts give false.
\<close>

theorem volume_triggers_decide:
  assumes "\<forall>a \<in> set alerts.
             \<not> (metric a = ''rmse'' \<and> severity a = ''CRITICAL'')
             \<and> \<not> (metric a = ''clarke_ab_percentage'' \<and> alert_value a < clarke_ab_min th)"
  shows "evaluate_retraining_need th alerts =
           (if length (filter (\<lambda>a. severity a = ''CRITICAL'') alerts) \<ge> 3 then True
            else if length (filter (\<lambda>a. severity a = ''WARNING'') alerts) \<ge> 5 then True
            else False)
         \<and> (length (filter (\<lambda>a. severity a = ''CRITICAL'') alerts) = 2
              \<and> length (filter (\<lambda>a. severity a = ''WARNING'') alerts) < 5
              \<longrightarrow> evaluate_retraining_need th alerts = False)"
proof -
  from assms have "\<not> immediate_trigger th alerts"
    unfolding immediate_trigger_iff rmse_critical_alert_def clarke_below_alert_def by blast
  then show ?thesis
    by (simp add: evaluate_retraining_need_def critical_count_def warning_count_def)
qed

text \<open>
  Claim C8. The verdict is the same for every permutation of the alert list: it
  depends on which alerts there are, not on their order.
\<close>

theorem verdict_permutation_invariant:
  assumes "mset alerts = mset alerts'"
  shows "evaluate_retraining_need th alerts = evaluate_retraining_need th alerts'"
proof -
  from assms have "set alerts = set alerts'" by (rule mset_eq_setD)
  then have "immediate_trigger th alerts = immediate_trigger th alerts'"
    by (simp add: immediate_trigger_iff)
  moreover from assms have "critical_count alerts = critical_count alerts'"
    by (simp add: critical_count_mset)
  moreover from assms have "warning_count alerts = warning_count alerts'"
    by (simp add: warning_count_mset)
  ultimately show ?thesis by (simp add: evaluate_retraining_need_def)
qed

text \<open>
  Alerts that are not triggers: two \<^verbatim>\<open>CRITICAL\<close> ones give no retraining, three
  give retraining, and so do five \<^verbatim>\<open>WARNING\<close> ones without any \<^verbatim>\<open>CRITICAL\<close>.
\<close>

theorem volume_triggers_decide_witness:
  "evaluate_retraining_need default_thresholds
     [new_alert ''t'' ''CRITICAL'' ''DATA_QUALITY'' ''sensor_range_violations'' 3 0,
      new_alert ''t'' ''CRITICAL'' ''STATISTICAL_DRIFT'' ''psi_velocity'' (1 / 2) (1 / 4)] = False
   \<and> evaluate_retraining_need default_thresholds
     [new_alert ''t'' ''CRITICAL'' ''DATA_QUALITY'' ''sensor_range_violations'' 3 0,
      new_alert ''t'' ''CRITICAL'' ''STATISTICAL_DRIFT'' ''psi_velocity'' (1 / 2) (1 / 4),
      new_alert ''t'' ''CRITICAL'' ''STATISTICAL_DRIFT'' ''psi_lag_15m'' (1 / 2) (1 / 4)] = True
   \<and> evaluate_retraining_need default_thresholds
     [new_alert ''t'' ''WARNING'' ''DATA_QUALITY'' ''missing_rate'' (1 / 10) (5 / 100),
      new_alert ''t'' ''WARNING'' ''DATA_QUALITY'' ''outlier_rate'' (1 / 10) (2 / 100),
      new_alert ''t'' ''WARNING'' ''STATISTICAL_DRIFT'' ''psi_velocity'' (1 / 5) (1 / 10),
      new_alert ''t'' ''WARNING'' ''STATISTICAL_DRIFT'' ''psi_lag_15m'' (1 / 5) (1 / 10),
      new_alert ''t'' ''WARNING'' ''PERFORMANCE'' ''rmse'' 8 7] = True"
proof -
  let ?two = "[new_alert ''t'' ''CRITICAL'' ''DATA_QUALITY'' ''sensor_range_violations'' 3 0,
      new_alert ''t'' ''CRITICAL'' ''STATISTICAL_DRIFT'' ''psi_velocity'' (1 / 2) (1 / 4)]"
  let ?three = "[new_alert ''t'' ''CRITICAL'' ''DATA_QUALITY'' ''sensor_range_violations'' 3 0,
      new_alert ''t'' ''CRITICAL'' ''STATISTICAL_DRIFT'' ''psi_velocity'' (1 / 2) (1 / 4),
      new_alert ''t'' ''CRITICAL'' ''STATISTICAL_DRIFT'' ''psi_lag_15m'' (1 / 2) (1 / 4)]"
  let ?five = "[new_alert ''t'' ''WARNING'' ''DATA_QUALITY'' ''missing_rate'' (1 / 10) (5 / 100),
      new_alert ''t'' ''WARNING'' ''DATA_QUALITY'' ''outlier_rate'' (1 / 10) (2 / 100),
      new_alert ''t'' ''WARNING'' ''STATISTICAL_DRIFT'' ''psi_velocity'' (1 / 5) (1 / 10),
      new_alert ''t'' ''WARNING'' ''STATISTICAL_DRIFT'' ''psi_lag_15m'' (1 / 5) (1 / 10),
      new_alert ''t'' ''WARNING'' ''PERFORMANCE'' ''rmse'' 8 7]"
  have 2: "evaluate_retraining_need default_thresholds ?two = False"
    using volume_triggers_decide [of ?two default_thresholds]
    by (simp add: new_alert_def)
  have 3: "evaluate_retraining_need default_thresholds ?three = True"
    using volume_triggers_decide [of ?three default_thresholds]
    by (simp add: new_alert_def)
  have 5: "evaluate_retraining_need default_thresholds ?five = True"
    using volume_triggers_decide [of ?five default_thresholds]
    by (simp add: new_alert_def)
  from 2 3 5 show ?thesis by simp
qed

text \<open>A warning and a critical RMSE alert, in both orders.\<close>

theorem verdict_permutation_invariant_witness:
  "evaluate_retraining_need default_thresholds
     [new_alert ''t'' ''WARNING'' ''DATA_QUALITY'' ''missing_rate'' (1 / 10) (5 / 100),
      new_alert ''t'' ''CRITICAL'' ''PERFORMANCE'' ''rmse'' 10 9]
   = evaluate_retraining_need default_thresholds
     [new_alert ''t'' ''CRITICAL'' ''PERFORMANCE'' ''rmse'' 10 9,
      new_alert ''t'' ''WARNING'' ''DATA_QUALITY'' ''missing_rate'' (1 / 10) (5 / 100)]"
  by (rule verdict_permutation_invariant) (simp add: add_mset_commute)

section \<open>Properties of the rounding\<close>

lemma round_half_even_error: "\<bar>of_int (round_half_even x) - x\<bar> \<le> 1 / 2"
proof -
  have "of_int \<lfloor>x\<rfloor> \<le> x" and "x < of_int \<lfloor>x\<rfloor> + 1" by linarith+
  then show ?thesis
    by (auto simp: round_half_even_def Let_def)
qed

lemma round_half_even_nonneg: "0 \<le> x \<Longrightarrow> 0 \<le> round_half_even x"
  by (auto simp: round_half_even_def Let_def)

lemma pow2_powi: "pow2 e = 2 powi e"
  by (simp add: pow2_def power_int_def field_simps)

lemma pow2_pos: "pow2 e > 0"
  by (simp add: pow2_powi)

lemma pow2_diff: "pow2 (e - int k) = pow2 e / 2 ^ k"
  by (simp add: pow2_powi power_int_diff)

lemma pow2_Suc: "pow2 (e + 1) = 2 * pow2 e"
  by (simp add: pow2_powi power_int_add)

text \<open>The binade of a positive number holds it.\<close>

lemma binade_bounds:
  assumes "x > 0"
  shows "pow2 (binade x) \<le> x \<and> x < pow2 (binade x + 1)"
proof (cases "x \<ge> 1")
  case True
  define m where "m = nat \<lfloor>x\<rfloor>"
  define k where "k = floorlog 2 m"
  from True have m: "m > 0" by (simp add: m_def)
  have mx: "real m \<le> x" "x < real m + 1"
    using True unfolding m_def by linarith+
  from floorlog_bounds [of m 2] m have b: "2 ^ (k - 1) \<le> m" "m < 2 ^ k"
    by (simp_all add: k_def)
  from m have k: "k > 0" by (simp add: k_def floorlog_def)
  have e: "binade x = int k - 1" using True by (simp add: binade_def k_def m_def)
  have p1: "pow2 (int k - 1) = 2 ^ (k - 1)"
    using k by (simp add: pow2_def nat_diff_distrib)
  have p2: "pow2 (int k - 1 + 1) = 2 ^ k" by (simp add: pow2_def)
  from b(1) have r1: "(2::real) ^ (k - 1) \<le> real m"
    by (metis of_nat_le_iff of_nat_numeral of_nat_power)
  from b(2) have r2: "real m + 1 \<le> 2 ^ k"
    by (metis Suc_leI of_nat_Suc of_nat_le_iff of_nat_numeral of_nat_power add.commute)
  have "pow2 (binade x) \<le> x" unfolding e p1 using r1 mx(1) by linarith
  moreover have "x < pow2 (binade x + 1)" unfolding e p2 using r2 mx(2) by linarith
  ultimately show ?thesis by (rule conjI)
next
  case False
  define y where "y = 1 / x"
  define c where "c = nat \<lceil>y\<rceil>"
  define j where "j = floorlog 2 (c - 1)"
  from False assms have y: "y > 1" by (simp add: y_def)
  then have c2: "c \<ge> 2" unfolding c_def by linarith
  have cy: "y \<le> real c" "real c - 1 < y"
    using y unfolding c_def by linarith+
  from floorlog_bounds [of "c - 1" 2] c2 have b: "2 ^ (j - 1) \<le> c - 1" "c - 1 < 2 ^ j"
    by (simp_all add: j_def)
  from c2 have j: "j > 0" by (simp add: j_def floorlog_def)
  have e: "binade x = - int j" using False by (simp add: binade_def j_def c_def y_def)
  have p1: "pow2 (- int j) = 1 / 2 ^ j" using j by (simp add: pow2_def)
  have p2: "pow2 (- int j + 1) = 1 / 2 ^ (j - 1)"
  proof (cases "j = 1")
    case True then show ?thesis by (simp add: pow2_def)
  next
    case False
    with j have "- int j + 1 < 0" by simp
    moreover have "nat (- (- int j + 1)) = j - 1" using j by simp
    ultimately show ?thesis by (simp add: pow2_def)
  qed
  from b(2) c2 have "c \<le> 2 ^ j" by simp
  then have "real c \<le> 2 ^ j"
    by (metis of_nat_le_iff of_nat_numeral of_nat_power)
  with cy(1) have "y \<le> 2 ^ j" by linarith
  then have l: "1 / 2 ^ j \<le> x"
    using assms by (simp add: y_def field_simps)
  from b(1) c2 have "(2::real) ^ (j - 1) \<le> real (c - 1)"
    by (metis of_nat_le_iff of_nat_numeral of_nat_power)
  moreover from c2 have "real (c - 1) = real c - 1" by (simp add: of_nat_diff)
  ultimately have "(2::real) ^ (j - 1) \<le> real c - 1" by linarith
  with cy(2) have "2 ^ (j - 1) < y" by linarith
  then have u: "x < 1 / 2 ^ (j - 1)"
    using assms by (simp add: y_def field_simps)
  have "pow2 (binade x) \<le> x" unfolding e p1 by (rule l)
  moreover have "x < pow2 (binade x + 1)" unfolding e p2 by (rule u)
  ultimately show ?thesis by (rule conjI)
qed

text \<open>Rounding moves a number by at most half a unit in the last place.\<close>

lemma to_double_error:
  assumes "x \<ge> 0"
  shows "\<bar>to_double x - x\<bar> \<le> x / 2 ^ 53 \<and> to_double x \<ge> 0"
proof (cases "x = 0")
  case True
  then show ?thesis by (simp add: to_double_def)
next
  case False
  with assms have x: "x > 0" by simp
  define u where "u = pow2 (binade x - 52)"
  have u: "u > 0" by (simp add: u_def pow2_pos)
  have u52: "u = pow2 (binade x) / 2 ^ 52"
    unfolding u_def using pow2_diff [of "binade x" 52] by simp
  from binade_bounds [OF x] have "pow2 (binade x) \<le> x" by simp
  then have ux: "u \<le> x / 2 ^ 52" by (simp add: u52 field_simps)
  define r where "r = round_half_even (x / u)"
  have t: "to_double x = of_int r * u"
    using x by (simp add: to_double_def Let_def u_def r_def)
  have "\<bar>of_int r - x / u\<bar> \<le> 1 / 2"
    unfolding r_def by (rule round_half_even_error)
  then have "\<bar>of_int r - x / u\<bar> * u \<le> 1 / 2 * u"
    using u by (simp add: mult_right_mono)
  moreover have "\<bar>of_int r - x / u\<bar> * u = \<bar>of_int r * u - x\<bar>"
  proof -
    have "\<bar>of_int r - x / u\<bar> * u = \<bar>(of_int r - x / u) * u\<bar>"
      using u by (simp add: abs_mult)
    also have "(of_int r - x / u) * u = of_int r * u - x"
      using u by (simp add: field_simps)
    finally show ?thesis .
  qed
  ultimately have "\<bar>of_int r * u - x\<bar> \<le> u / 2" by simp
  also have "u / 2 \<le> x / 2 ^ 53" using ux by simp
  finally have 1: "\<bar>to_double x - x\<bar> \<le> x / 2 ^ 53" by (simp add: t)
  have "0 \<le> r" unfolding r_def using x u by (intro round_half_even_nonneg) simp
  then have 2: "to_double x \<ge> 0" using u by (simp add: t)
  from 1 2 show ?thesis by simp
qed

text \<open>A ratio turned into a percentage carries two roundings.\<close>

lemma percentage_error:
  assumes "q \<ge> 0"
  shows "\<bar>to_double (to_double q * 100) - 100 * q\<bar> \<le> q / 2 ^ 45"
proof -
  define e :: real where "e = 1 / 2 ^ 53"
  define r1 where "r1 = to_double q"
  define r2 where "r2 = to_double (r1 * 100)"
  have e: "e \<ge> 0" by (simp add: e_def)
  from to_double_error [OF assms] have a: "\<bar>r1 - q\<bar> \<le> q * e" and r1: "r1 \<ge> 0"
    by (simp_all add: r1_def e_def)
  then have r1q: "r1 \<le> q + q * e" by linarith
  from r1 have "r1 * 100 \<ge> 0" by simp
  from to_double_error [OF this] have b: "\<bar>r2 - r1 * 100\<bar> \<le> (r1 * 100) * e"
    by (simp add: r2_def e_def)
  from r1q e have "(r1 * 100) * e \<le> ((q + q * e) * 100) * e"
    by (intro mult_right_mono) simp_all
  with b have b': "\<bar>r2 - r1 * 100\<bar> \<le> ((q + q * e) * 100) * e" by linarith
  have "r2 - 100 * q = (r2 - r1 * 100) + 100 * (r1 - q)" by simp
  then have t: "\<bar>r2 - 100 * q\<bar> \<le> \<bar>r2 - r1 * 100\<bar> + \<bar>100 * (r1 - q)\<bar>"
    by (metis abs_triangle_ineq)
  have m: "\<bar>100 * (r1 - q)\<bar> = 100 * \<bar>r1 - q\<bar>"
    by (simp only: abs_mult abs_numeral)
  have "\<bar>r2 - 100 * q\<bar> \<le> ((q + q * e) * 100) * e + 100 * (q * e)"
    using t m a b' by linarith
  also have "\<dots> = q * (100 * e * (2 + e))" by (simp add: algebra_simps)
  also have "\<dots> \<le> q * (1 / 2 ^ 45)"
  proof (rule mult_left_mono [OF _ assms])
    show "100 * e * (2 + e) \<le> 1 / 2 ^ 45" by (simp add: e_def)
  qed
  finally show ?thesis by (simp add: r1_def r2_def)
qed

lemma zone_percentage_error:
  "\<bar>float_mul (int_truediv c n) 100 - 100 * (real c / real n)\<bar> \<le> (real c / real n) / 2 ^ 45"
  unfolding float_mul_def int_truediv_def by (rule percentage_error) simp

lemma five_percentages:
  fixes a b c d e :: nat
  assumes "a + b + c + d + e = n" and "n > 0"
  shows "\<bar>float_mul (int_truediv a n) 100 + float_mul (int_truediv b n) 100
          + float_mul (int_truediv c n) 100 + float_mul (int_truediv d n) 100
          + float_mul (int_truediv e n) 100 - 100\<bar> \<le> 1 / 2 ^ 45"
proof -
  have s: "real a / real n + real b / real n + real c / real n + real d / real n + real e / real n = 1"
  proof -
    have "real a + real b + real c + real d + real e = real n"
      using assms(1) by (metis of_nat_add)
    then show ?thesis using assms(2) by (simp add: field_simps)
  qed
  note z = zone_percentage_error [of a n] zone_percentage_error [of b n]
    zone_percentage_error [of c n] zone_percentage_error [of d n] zone_percentage_error [of e n]
  have "\<bar>float_mul (int_truediv a n) 100 + float_mul (int_truediv b n) 100
          + float_mul (int_truediv c n) 100 + float_mul (int_truediv d n) 100
          + float_mul (int_truediv e n) 100 - 100\<bar>
        \<le> (real a / real n) / 2 ^ 45 + (real b / real n) / 2 ^ 45 + (real c / real n) / 2 ^ 45
          + (real d / real n) / 2 ^ 45 + (real e / real n) / 2 ^ 45"
    using z s by linarith
  also have "\<dots> = (real a / real n + real b / real n + real c / real n + real d / real n
                   + real e / real n) / 2 ^ 45"
    by (simp add: add_divide_distrib)
  also have "\<dots> = 1 / 2 ^ 45" by (simp only: s)
  finally show ?thesis .
qed

lemma third_percentage: "float_mul (int_truediv 1 3) 100 = 2345624805922133 / 70368744177664"
  unfolding float_mul_def int_truediv_def by code_simp

lemma zero_percentage: "float_mul (int_truediv 0 n) 100 = 0"
  by (simp add: float_mul_def int_truediv_def to_double_def)

lemma to_double_1: "to_double 1 = 1"
  by code_simp

lemma to_double_100: "to_double 100 = 100"
  by code_simp

text \<open>
  With 2 rows in Zone A and 55 in Zone B out of 60, the sum of the two percentages is
  the double 94.99999999999999, below the default threshold 95.
\<close>

lemma zone_ab_57_of_60:
  "float_add (float_mul (int_truediv 2 60) 100) (float_mul (int_truediv 55 60) 100)
     = 6685030696878079 / 70368744177664"
  unfolding float_add_def float_mul_def int_truediv_def by code_simp

lemma full_percentage: "n > 0 \<Longrightarrow> float_mul (int_truediv n n) 100 = 100"
  by (simp add: float_mul_def int_truediv_def to_double_1 to_double_100)

section \<open>Properties of the clinical grid\<close>



text \<open>Whatever matches the Zone D test matches the Zone E test before it.\<close>

lemma clarke_zone_never_D: "clarke_zone t p \<noteq> ZoneD"
  by (auto simp add: clarke_zone_def)

lemma zone_total_upd: "zone_total (zones(z := Suc (zones z))) = Suc (zone_total zones)"
  by (cases z) (simp_all add: zone_total_def)

lemma count_zones_total: "zone_total (count_zones ps zones) = zone_total zones + length ps"
  by (induction ps arbitrary: zones) (auto simp: zone_total_upd)

lemma clarke_metrics_returns:
  assumes "y_true \<noteq> []"
  shows "calculate_clarke_metrics y_true y_pred =
    Inr \<lparr>zone_a_pct = float_mul (int_truediv (count_zones (zip y_true y_pred) (\<lambda>z. 0) ZoneA)
                           (length y_true)) 100,
         zone_b_pct = float_mul (int_truediv (count_zones (zip y_true y_pred) (\<lambda>z. 0) ZoneB)
                           (length y_true)) 100,
         zone_c_pct = float_mul (int_truediv (count_zones (zip y_true y_pred) (\<lambda>z. 0) ZoneC)
                           (length y_true)) 100,
         zone_d_pct = float_mul (int_truediv (count_zones (zip y_true y_pred) (\<lambda>z. 0) ZoneD)
                           (length y_true)) 100,
         zone_e_pct = float_mul (int_truediv (count_zones (zip y_true y_pred) (\<lambda>z. 0) ZoneE)
                           (length y_true)) 100,
         zone_counts = count_zones (zip y_true y_pred) (\<lambda>z. 0)\<rparr>"
  using assms by (simp add: calculate_clarke_metrics_def Let_def)

lemma three_rows_counts:
  "count_zones (zip [100, 240, 100] [105, 65, 150]) (\<lambda>z. 0) ZoneA = 1"
  "count_zones (zip [100, 240, 100] [105, 65, 150]) (\<lambda>z. 0) ZoneB = 1"
  "count_zones (zip [100, 240, 100] [105, 65, 150]) (\<lambda>z. 0) ZoneC = 0"
  "count_zones (zip [100, 240, 100] [105, 65, 150]) (\<lambda>z. 0) ZoneD = 0"
  "count_zones (zip [100, 240, 100] [105, 65, 150]) (\<lambda>z. 0) ZoneE = 1"
  by (simp_all add: clarke_zone_def)

lemma three_rows_length: "length [100::real, 240, 100] = 3"
  by simp

lemma three_thirds_float_sum:
  "float_add (float_add (float_add (float_add (2345624805922133 / 70368744177664)
       (2345624805922133 / 70368744177664)) 0) 0) (2345624805922133 / 70368744177664)
     = 7036874417766399 / 70368744177664"
  unfolding float_add_def by code_simp

text \<open>
  Three rows, in Zones A, E and B: each of the three percentages is the double
  33.33333333333333 (below a third of 100), and they add up to the double
  99.99999999999999, whether the sum is exact or rounded as Python adds them.
\<close>

theorem clarke_percentages_not_exact_counterexample:
  "percentages_of (calculate_clarke_metrics [100, 240, 100] [105, 65, 150])
     = [2345624805922133 / 70368744177664, 2345624805922133 / 70368744177664, 0, 0,
        2345624805922133 / 70368744177664]
   \<and> sum_list (percentages_of (calculate_clarke_metrics [100, 240, 100] [105, 65, 150]))
       = 7036874417766399 / 70368744177664
   \<and> sum_list (percentages_of (calculate_clarke_metrics [100, 240, 100] [105, 65, 150])) \<noteq> 100
   \<and> float_add (float_add (float_add (float_add (2345624805922133 / 70368744177664)
         (2345624805922133 / 70368744177664)) 0) 0) (2345624805922133 / 70368744177664) \<noteq> 100"
proof -
  have p: "percentages_of (calculate_clarke_metrics [100, 240, 100] [105, 65, 150])
     = [2345624805922133 / 70368744177664, 2345624805922133 / 70368744177664, 0, 0,
        2345624805922133 / 70368744177664]"
  proof -
    have "[100::real, 240, 100] \<noteq> []" by simp
    from clarke_metrics_returns [OF this, of "[105, 65, 150]"] show ?thesis
      by (simp only: percentages_of_def sum.case ClarkeMetrics.select_convs
          three_rows_counts three_rows_length third_percentage zero_percentage)
  qed
  show ?thesis
    unfolding p three_thirds_float_sum by simp
qed

text \<open>
  Claim C4, amended. For a batch with at least one row (one prediction per ground-truth
  value), the aggregation returns its metrics, every row is counted in exactly one
  zone, each percentage is the count of its zone divided by the number of rows, times
  100, in double precision, and the five percentages add up to 100 up to rounding:
  their sum is within \<open>2^-45\<close> of 100.
\<close>

theorem clarke_percentages_sum_up_to_rounding:
  assumes "y_true \<noteq> []" and "length y_pred = length y_true"
  shows "\<exists>m. calculate_clarke_metrics y_true y_pred = Inr m
           \<and> zone_total (zone_counts m) = length y_true
           \<and> zone_a_pct m = float_mul (int_truediv (zone_counts m ZoneA) (length y_true)) 100
           \<and> zone_b_pct m = float_mul (int_truediv (zone_counts m ZoneB) (length y_true)) 100
           \<and> zone_c_pct m = float_mul (int_truediv (zone_counts m ZoneC) (length y_true)) 100
           \<and> zone_d_pct m = float_mul (int_truediv (zone_counts m ZoneD) (length y_true)) 100
           \<and> zone_e_pct m = float_mul (int_truediv (zone_counts m ZoneE) (length y_true)) 100
           \<and> \<bar>zone_a_pct m + zone_b_pct m + zone_c_pct m + zone_d_pct m + zone_e_pct m - 100\<bar>
               \<le> 1 / 2 ^ 45"
proof -
  let ?zones = "count_zones (zip y_true y_pred) (\<lambda>z. 0)"
  let ?n = "length y_true"
  from assms have n: "?n > 0" by simp
  have "zone_total ?zones = zone_total (\<lambda>z. 0) + length (zip y_true y_pred)"
    by (rule count_zones_total)
  with assms have total: "zone_total ?zones = ?n"
    by (simp add: zone_total_def)
  then have "?zones ZoneA + ?zones ZoneB + ?zones ZoneC + ?zones ZoneD + ?zones ZoneE = ?n"
    by (simp add: zone_total_def)
  from five_percentages [OF this n] total show ?thesis
    by (simp add: clarke_metrics_returns [OF assms(1)])
qed

text \<open>The three rows again: the sum is 99.99999999999999, within the bound.\<close>

theorem clarke_percentages_sum_up_to_rounding_witness:
  "\<exists>m. calculate_clarke_metrics [100, 240, 100] [105, 65, 150] = Inr m
      \<and> zone_total (zone_counts m) = 3
      \<and> \<bar>zone_a_pct m + zone_b_pct m + zone_c_pct m + zone_d_pct m + zone_e_pct m - 100\<bar>
          \<le> 1 / 2 ^ 45"
proof -
  have "[100::real, 240, 100] \<noteq> []" by simp
  moreover have "length [105::real, 65, 150] = length [100::real, 240, 100]" by simp
  ultimately show ?thesis
    using clarke_percentages_sum_up_to_rounding [of "[100, 240, 100]" "[105, 65, 150]"]
    by auto
qed

section \<open>Properties of the performance monitor\<close>


lemma sqrt_49: "sqrt 49 = 7"
  by (rule real_sqrt_unique) auto


lemma length_prediction_error:
  "length (prediction_error pr data) = length (rows data)"
  by (simp add: prediction_error_def predictions_def ground_truth_def features_of_def column_def)

lemma rmse_alerts_metric: "a \<in> set (rmse_alerts now th r) \<Longrightarrow> metric a = ''rmse''"
  by (auto simp: rmse_alerts_def new_alert_def split: if_splits)







section \<open>Properties of the population stability index\<close>

lemma psi_summand_nonneg:
  fixes c r :: real
  assumes "c > 0" and "r > 0"
  shows "(c - r) * ln (c / r) \<ge> 0"
proof (cases "r \<le> c")
  case True
  with assms have "1 \<le> c / r" by simp
  then have "0 \<le> ln (c / r)" by (rule ln_ge_zero)
  moreover from True have "0 \<le> c - r" by simp
  ultimately show ?thesis by (rule mult_nonneg_nonneg [rotated])
next
  case False
  with assms have "c / r \<le> 1" and "0 < c / r" by simp_all
  then have "ln (c / r) \<le> 0" by simp
  moreover from False have "c - r \<le> 0" by simp
  ultimately show ?thesis by (rule mult_nonpos_nonpos [rotated])
qed

lemma replace_zero_rate_positive: "positive_cell (replace_zero (rate k n))"
  by (simp add: positive_cell_def replace_zero_def rate_def)

lemma bin_percents_positive: "p \<in> set (bin_percents bps xs) \<Longrightarrow> positive_cell p"
  by (auto simp: bin_percents_def replace_zero_rate_positive)

lemma psi_term_nonneg:
  assumes "positive_cell c" and "positive_cell r" and "psi_term c r = Some v"
  shows "v \<ge> 0"
  using assms
  by (auto simp: psi_term_def positive_cell_def psi_summand_nonneg split: option.splits)

lemma dropna_set: "v \<in> set (dropna xs) \<longleftrightarrow> Some v \<in> set xs"
  by (induction xs rule: dropna.induct) auto

lemma psi_sum_nonneg:
  assumes "\<forall>p \<in> set cs. positive_cell p" and "\<forall>p \<in> set rs. positive_cell p"
  shows "sum_list (dropna (map2 psi_term cs rs)) \<ge> 0"
proof (rule sum_list_nonneg)
  fix v assume "v \<in> set (dropna (map2 psi_term cs rs))"
  then have "Some v \<in> set (map2 psi_term cs rs)" by (simp add: dropna_set)
  then obtain c r where "(c, r) \<in> set (zip cs rs)" and "psi_term c r = Some v" by auto
  moreover then have "c \<in> set cs" and "r \<in> set rs" by (auto dest: set_zip_leftD set_zip_rightD)
  ultimately show "0 \<le> v" using assms psi_term_nonneg by blast
qed

lemma psi_term_same: "Some v = psi_term p p \<Longrightarrow> v = 0"
  by (auto simp: psi_term_def split: option.splits)

lemma psi_sum_same: "sum_list (dropna (map2 psi_term ps ps)) = 0"
proof -
  have "v = 0" if "v \<in> set (dropna (map2 psi_term ps ps))" for v
  proof -
    from that have "Some v \<in> set (map2 psi_term ps ps)" by (simp add: dropna_set)
    then obtain p where "Some v = psi_term p p" by (auto simp: zip_same)
    then show ?thesis by (rule psi_term_same)
  qed
  then have "dropna (map2 psi_term ps ps) = replicate (length (dropna (map2 psi_term ps ps))) 0"
    by (simp add: replicate_length_same)
  then have "sum_list (dropna (map2 psi_term ps ps))
             = sum_list (replicate (length (dropna (map2 psi_term ps ps))) (0::real))"
    by simp
  then show ?thesis by (simp add: sum_list_replicate)
qed

text \<open>
  Claim C6. For a reference sample on which the binning is defined (not empty and not
  constant) and any new sample, the 10-bin procedure returns a PSI, the PSI is not
  negative, and it is 0 when the two samples have the same proportions in every bin.
\<close>

theorem psi_nonnegative_zero_when_same:
  assumes "reference \<noteq> []" and "Min (set reference) \<noteq> Max (set reference)"
  shows "\<exists>psi. calculate_psi reference current = Inr psi \<and> psi \<ge> 0
           \<and> (bin_percents (psi_breakpoints reference) current
                = bin_percents (psi_breakpoints reference) reference \<longrightarrow> psi = 0)"
proof -
  let ?bps = "psi_breakpoints reference"
  let ?psi = "sum_list (dropna (map2 psi_term (bin_percents ?bps current) (bin_percents ?bps reference)))"
  from assms have "calculate_psi reference current = Inr ?psi"
    by (simp add: calculate_psi_def Let_def)
  moreover have "?psi \<ge> 0"
    by (rule psi_sum_nonneg) (auto dest: bin_percents_positive)
  moreover have "bin_percents ?bps current = bin_percents ?bps reference \<longrightarrow> ?psi = 0"
    by (simp add: psi_sum_same)
  ultimately show ?thesis by blast
qed

lemma upt_11: "[0..<11] = [0, 1, 2, 3, 4, 5, 6, 7, 8, 9, 10]"
  by (simp add: upt_rec)

lemma breakpoints_0_10:
  "psi_breakpoints [0, 10] =
     [NegInf, Edge 1, Edge 2, Edge 3, Edge 4, Edge 5, Edge 6, Edge 7, Edge 8, Edge 9, PosInf]"
  by (simp add: psi_breakpoints_def linspace_def upt_11)

lemma bin_percents_0_10:
  "bin_percents (psi_breakpoints [0, 10]) [0, 0, 10, 10] = bin_percents (psi_breakpoints [0, 10]) [0, 10]"
  by (simp add: breakpoints_0_10 bin_percents_def value_counts_def rate_def replace_zero_def)

text \<open>
  Reference 0 and 10, new sample twice each: half of each sample is in the first bin
  and half in the last.
\<close>

theorem psi_nonnegative_zero_when_same_witness:
  "calculate_psi [0, 10] [0, 0, 10, 10] = Inr 0"
proof -
  have "[0::real, 10] \<noteq> []" by simp
  moreover have "Min (set [0::real, 10]) \<noteq> Max (set [0::real, 10])" by simp
  ultimately show ?thesis
    using psi_nonnegative_zero_when_same [of "[0, 10]" "[0, 0, 10, 10]"] bin_percents_0_10
    by auto
qed


section \<open>Properties of the alerts of a cycle\<close>

lemma graded_new_alert [simp]:
  "graded (new_alert now sev cat m v t) \<longleftrightarrow> sev = ''WARNING'' \<or> sev = ''CRITICAL''"
  by (simp add: graded_def new_alert_def)

lemma data_quality_graded:
  "check_data_quality zs now th data = Inr alerts \<Longrightarrow> list_all graded alerts"
  by (auto simp: check_data_quality_def Let_def split: if_splits option.splits)

lemma feature_drift_graded:
  "feature_drift ks now th reference data feature = Inr alerts \<Longrightarrow> list_all graded alerts"
  by (auto simp: feature_drift_def Let_def split: if_splits prod.splits sum.splits)

lemma collect_alerts_graded:
  assumes "\<And>x alerts. f x = Inr alerts \<Longrightarrow> list_all graded alerts"
  shows "collect_alerts f xs = Inr alerts \<Longrightarrow> list_all graded alerts"
  using assms
  by (induction xs arbitrary: alerts) (auto split: sum.splits)

lemma statistical_drift_graded:
  "check_statistical_drift ks now th reference data = Inr alerts \<Longrightarrow> list_all graded alerts"
  unfolding check_statistical_drift_def
  by (erule collect_alerts_graded [rotated]) (rule feature_drift_graded)

lemma rmse_alerts_graded: "list_all graded (rmse_alerts now th r)"
  by (simp add: rmse_alerts_def)

lemma performance_graded:
  "check_performance pr now th data = Inr (m, alerts) \<Longrightarrow> list_all graded alerts"
  by (auto simp: check_performance_def Let_def rmse_alerts_graded split: if_splits sum.splits)

lemma bias_alerts_graded:
  "bias_alerts now th data demo_col = Inr alerts \<Longrightarrow> list_all graded alerts"
  by (auto simp: bias_alerts_def Let_def split: if_splits)

lemma bias_drift_graded:
  assumes "check_bias_drift pr now th data cols = Inr alerts"
  shows "list_all graded alerts"
proof (cases "''target_30min'' \<in> set (columns data) \<and> set feature_cols \<subseteq> set (columns data)")
  case True
  with assms have "collect_alerts
      (bias_alerts now th (with_errors data (prediction_error pr data))) cols = Inr alerts"
    by (simp add: check_bias_drift_def Let_def)
  then show ?thesis
    by (rule collect_alerts_graded [rotated]) (rule bias_alerts_graded)
next
  case False
  with assms show ?thesis
    by (auto simp: check_bias_drift_def split: if_splits)
qed

lemma bias_stage_graded:
  "bias_stage pr now th data demo = Inr alerts \<Longrightarrow> list_all graded alerts"
  by (auto simp: bias_stage_def dest: bias_drift_graded split: if_splits)

lemma check_drift_cases:
  "\<exists>cycle_alerts. list_all graded cycle_alerts
     \<and> set (produced_alerts (fst (check_drift env mon data demo))) \<subseteq> set cycle_alerts
     \<and> (snd (check_drift env mon data demo) = mon
          \<or> snd (check_drift env mon data demo)
              = mon\<lparr>alert_history := alert_history mon @ cycle_alerts\<rparr>)"
proof (cases "check_data_quality (zscore env) (clock env) (thresholds mon) data")
  case (Inl e)
  then show ?thesis
    by (intro exI [of _ "[]"]) (simp add: check_drift_def produced_alerts_def)
next
  case q: (Inr quality_alerts)
  show ?thesis
  proof (cases "check_statistical_drift (ks_2samp env) (clock env) (thresholds mon) (reference_data mon) data")
    case (Inl e)
    with q show ?thesis
      by (intro exI [of _ "[]"]) (simp add: check_drift_def produced_alerts_def)
  next
    case d: (Inr drift_alerts)
    show ?thesis
    proof (cases "check_performance (predict env) (clock env) (thresholds mon) data")
      case (Inl e)
      with q d show ?thesis
        by (intro exI [of _ "[]"]) (simp add: check_drift_def produced_alerts_def)
    next
      case (Inr pair)
      then obtain perf_metrics perf_alerts where
        p: "check_performance (predict env) (clock env) (thresholds mon) data = Inr (perf_metrics, perf_alerts)"
        by (cases pair) simp
      show ?thesis
      proof (cases "bias_stage (predict env) (clock env) (thresholds mon) data demo")
        case (Inl e)
        with q d p show ?thesis
          by (intro exI [of _ "[]"]) (simp add: check_drift_def produced_alerts_def)
      next
        case b: (Inr bias)
        let ?alerts = "quality_alerts @ drift_alerts @ perf_alerts @ bias"
        have g: "list_all graded ?alerts"
          using data_quality_graded [OF q] statistical_drift_graded [OF d]
            performance_graded [OF p] bias_stage_graded [OF b] by simp
        show ?thesis
        proof (cases "generate_summary ?alerts (evaluate_retraining_need (thresholds mon) ?alerts) perf_metrics")
          case (Inl e)
          with q d p b g show ?thesis
            by (intro exI [of _ ?alerts]) (simp add: check_drift_def Let_def produced_alerts_def)
        next
          case (Inr status)
          with q d p b g show ?thesis
            by (intro exI [of _ ?alerts]) (simp add: check_drift_def Let_def produced_alerts_def)
        qed
      qed
    qed
  qed
qed

lemma check_drift_graded:
  "list_all graded (produced_alerts (fst (check_drift env mon data demo)))"
  using check_drift_cases [of env mon data demo]
  by (auto simp: list_all_iff)

lemma check_drift_history_graded:
  "list_all graded (alert_history mon)
     \<Longrightarrow> list_all graded (alert_history (snd (check_drift env mon data demo)))"
  using check_drift_cases [of env mon data demo]
  by auto

lemma run_cycles_graded:
  "list_all graded (alert_history mon) \<Longrightarrow> list_all graded (alert_history (run_cycles mon cycles))"
  by (induction mon cycles rule: run_cycles.induct) (auto intro: check_drift_history_graded)

lemma filter_alerts_subset: "set (filter_alerts s e history) \<subseteq> set history"
  by (auto simp: filter_alerts_def Let_def split: option.splits if_splits)

lemma graded_not_retraining: "graded a \<Longrightarrow> \<not> contains ''RETRAINING'' (severity a)"
  by (auto simp: graded_def)

lemma graded_not_unused: "graded a \<Longrightarrow> \<not> unused_severity a"
  by (auto simp: graded_def unused_severity_def)

lemma pmcf_no_retraining:
  assumes "list_all graded (alert_history mon)"
  shows "retraining_events (generate_pmcf_report mon s e) = 0"
proof -
  have "\<forall>a \<in> set (filter_alerts s e (alert_history mon)). \<not> contains ''RETRAINING'' (severity a)"
    using assms filter_alerts_subset [of s e "alert_history mon"]
    by (auto simp: list_all_iff dest: graded_not_retraining)
  then show ?thesis
    by (simp add: generate_pmcf_report_def Let_def filter_empty_conv)
qed

text \<open>
  Claim C9. Every alert that a monitoring cycle reports, and every alert in the history
  of a monitor after any sequence of cycles, has severity \<^verbatim>\<open>WARNING\<close> or
  \<^verbatim>\<open>CRITICAL\<close>, never \<^verbatim>\<open>INFO\<close> or \<^verbatim>\<open>RETRAINING_REQUIRED\<close>; so the
  compliance report counts no alert whose severity contains \<^verbatim>\<open>RETRAINING\<close>.
\<close>

theorem alerts_are_warning_or_critical:
  "list_all graded (produced_alerts (fst (check_drift env mon new_data demographic_cols)))
   \<and> list_all graded (alert_history (run_cycles (new_monitor th reference) cycles))
   \<and> list_all (\<lambda>a. \<not> unused_severity a) (alert_history (run_cycles (new_monitor th reference) cycles))
   \<and> retraining_events
       (generate_pmcf_report (run_cycles (new_monitor th reference) cycles) start_date end_date) = 0"
proof -
  have h: "list_all graded (alert_history (run_cycles (new_monitor th reference) cycles))"
    by (rule run_cycles_graded) (simp add: new_monitor_def)
  then have "list_all (\<lambda>a. \<not> unused_severity a) (alert_history (run_cycles (new_monitor th reference) cycles))"
    by (auto simp: list_all_iff dest: graded_not_unused)
  with h show ?thesis
    by (simp add: check_drift_graded pmcf_no_retraining)
qed

section \<open>A batch without rows\<close>

lemma length_dropna: "length (dropna xs) \<le> length xs"
  by (induction xs rule: dropna.induct) auto

lemma feature_drift_small:
  assumes "length (rows data) < 30"
  shows "feature_drift ks now th reference data feature = Inr []"
proof -
  have "length (dropna (column data feature)) \<le> length (rows data)"
    using length_dropna [of "column data feature"] by (simp add: column_def)
  with assms have "length (dropna (column data feature)) < 30" by simp
  then show ?thesis by (simp add: feature_drift_def Let_def)
qed

lemma collect_alerts_none: "(\<And>x. f x = Inr []) \<Longrightarrow> collect_alerts f xs = Inr []"
  by (induction xs) simp_all

lemma statistical_drift_small:
  "length (rows data) < 30 \<Longrightarrow> check_statistical_drift ks now th reference data = Inr []"
  unfolding check_statistical_drift_def
  by (rule collect_alerts_none) (rule feature_drift_small)

lemma data_quality_returns:
  "set feature_cols \<subseteq> set (columns data) \<Longrightarrow> \<exists>alerts. check_data_quality zs now th data = Inr alerts"
  by (simp add: check_data_quality_def Let_def)

lemma data_quality_key_error:
  "\<not> set feature_cols \<subseteq> set (columns data) \<Longrightarrow> check_data_quality zs now th data = Inl KeyError"
  by (simp add: check_data_quality_def)

lemma performance_no_rows:
  assumes "rows data = []" and "set feature_cols \<subseteq> set (columns data)"
    and "''target_30min'' \<in> set (columns data)"
  shows "check_performance pr now th data = Inl ZeroDivisionError"
  using assms
  by (simp add: check_performance_def Let_def calculate_clarke_metrics_def ground_truth_def column_def)

lemma performance_no_target:
  "''target_30min'' \<notin> set (columns data) \<Longrightarrow> check_performance pr now th data = Inr (None, [])"
  by (simp add: check_performance_def)

lemma bias_stage_no_target:
  "''target_30min'' \<notin> set (columns data) \<Longrightarrow> bias_stage pr now th data demo = Inr []"
  by (simp add: bias_stage_def check_bias_drift_def)

lemma summary_no_metrics: "generate_summary cycle_alerts retrain None = Inl ValueError"
  by (simp add: generate_summary_def Let_def)

text \<open>
  Claim C10, amended. For a batch with zero rows the monitoring cycle returns no
  report, so a report is only guaranteed for a batch with at least one row. The
  data-quality stage does not raise there (its missing-rate division gives NaN); with
  the feature and target columns present it is the clinical-grid aggregation that
  raises, dividing the zone counts by the row count 0; without the target column the
  summary raises; without a feature column the first stage raises \<^verbatim>\<open>KeyError\<close>.
\<close>

theorem no_report_without_rows:
  assumes "rows data = []"
  shows "fst (check_drift env mon data demographic_cols) =
           Inl (if \<not> set feature_cols \<subseteq> set (columns data) then KeyError
                else if ''target_30min'' \<in> set (columns data) then ZeroDivisionError
                else ValueError)
         \<and> \<not> is_report (fst (check_drift env mon data demographic_cols))
         \<and> (set feature_cols \<subseteq> set (columns data) \<longrightarrow>
              (\<exists>alerts. check_data_quality (zscore env) (clock env) (thresholds mon) data = Inr alerts))
         \<and> (set feature_cols \<subseteq> set (columns data) \<and> ''target_30min'' \<in> set (columns data) \<longrightarrow>
              check_performance (predict env) (clock env) (thresholds mon) data = Inl ZeroDivisionError)"
proof -
  let ?e = "if \<not> set feature_cols \<subseteq> set (columns data) then KeyError
            else if ''target_30min'' \<in> set (columns data) then ZeroDivisionError
            else ValueError"
  have d: "check_statistical_drift (ks_2samp env) (clock env) (thresholds mon) (reference_data mon) data = Inr []"
    using assms by (simp add: statistical_drift_small)
  have r: "fst (check_drift env mon data demographic_cols) = Inl ?e"
  proof (cases "set feature_cols \<subseteq> set (columns data)")
    case False
    then show ?thesis by (simp add: check_drift_def data_quality_key_error)
  next
    case True
    then obtain quality_alerts where
      q: "check_data_quality (zscore env) (clock env) (thresholds mon) data = Inr quality_alerts"
      using data_quality_returns by blast
    show ?thesis
    proof (cases "''target_30min'' \<in> set (columns data)")
      case t: True
      with True assms q d show ?thesis
        by (simp add: check_drift_def performance_no_rows)
    next
      case t: False
      with True q d show ?thesis
        by (simp add: check_drift_def performance_no_target bias_stage_no_target
            summary_no_metrics Let_def)
    qed
  qed
  then have "\<not> is_report (fst (check_drift env mon data demographic_cols))"
    by (simp add: is_report_def)
  with r assms show ?thesis
    by (auto simp: performance_no_rows dest: data_quality_returns)
qed

lemma data_quality_no_rows:
  "check_data_quality (zscore (steady_env pr)) now th (labelled_batch []) = Inr []"
  by (auto simp: check_data_quality_def Let_def labelled_batch_def features_of_def
       null_cells_def rate_def complete_rows_def steady_env_def cells_above_def column_def)

text \<open>
  On a batch with zero rows the missing rate of line 304 is NaN, and the data-quality
  check returns normally with no alert: it does not raise.
\<close>

theorem missing_rate_no_rows_counterexample:
  "rows (labelled_batch []) = []
   \<and> rate (null_cells (features_of (labelled_batch [])))
         (length (rows (labelled_batch [])) * length feature_cols) = None
   \<and> check_data_quality (zscore (steady_env (constant_predictor 100))) ''t'' default_thresholds
       (labelled_batch []) = Inr []"
  by (simp add: data_quality_no_rows) (simp add: labelled_batch_def rate_def)

text \<open>A table with the feature and target columns and no row.\<close>

theorem no_report_without_rows_witness:
  "fst (check_drift (steady_env (constant_predictor 100))
          (new_monitor default_thresholds (labelled_batch [])) (labelled_batch []) None)
     = Inl ZeroDivisionError"
proof -
  have "rows (labelled_batch []) = []" by (simp add: labelled_batch_def)
  from no_report_without_rows [OF this, of "steady_env (constant_predictor 100)"
      "new_monitor default_thresholds (labelled_batch [])" None]
  show ?thesis by (auto simp: labelled_batch_def)
qed

section \<open>The bias-drift check in a cycle\<close>

lemma cohort_errors: "prediction_error persistence_predictor cohort = [1, 7]"
  by (simp add: prediction_error_def predictions_def ground_truth_def features_of_def
      column_def cohort_def patient_def persistence_predictor_def feature_cols_def)

lemma cohort_columns:
  "''target_30min'' \<in> set (columns cohort)" "set feature_cols \<subseteq> set (columns cohort)"
  "''age_group'' \<in> set (columns cohort)" "''bmi_category'' \<notin> set (columns cohort)"
  by (auto simp add: cohort_def feature_cols_def)

lemma cohort_subgroups:
  "map snd (subgroup_rmse (with_errors cohort [1, 7]) ''age_group'') = [1, 7]"
  by (simp add: subgroup_rmse_def with_errors_def column_def cohort_def patient_def
      root_mean_square_def sqrt_49 Let_def)

lemma cohort_bias_alerts:
  "bias_alerts now default_thresholds (with_errors cohort [1, 7]) ''age_group''
     = Inr [new_alert now ''WARNING'' ''BIAS_DRIFT'' ''subgroup_disparity_age_group'' 6 2]"
proof -
  have "''age_group'' \<in> set (columns (with_errors cohort [1, 7]))"
    using cohort_columns(3) by (simp add: with_errors_def)
  then show ?thesis
    by (simp add: bias_alerts_def cohort_subgroups Let_def default_thresholds_def)
qed

lemma cohort_bias_absent:
  "bias_alerts now th (with_errors cohort errs) ''bmi_category'' = Inr []"
  using cohort_columns(4) by (simp add: bias_alerts_def with_errors_def)

lemma cohort_check_bias:
  "check_bias_drift persistence_predictor now default_thresholds cohort [''age_group'', ''bmi_category'']
     = Inr [new_alert now ''WARNING'' ''BIAS_DRIFT'' ''subgroup_disparity_age_group'' 6 2]"
  using cohort_columns(1,2)
  by (simp add: check_bias_drift_def Let_def cohort_errors cohort_bias_alerts cohort_bias_absent)

lemma cohort_gate: "\<not> bias_gate (Some [''age_group'', ''bmi_category'']) cohort"
  using cohort_columns(4) by (simp add: bias_gate_def)

lemma sqrt_25: "sqrt 25 = 5"
  by (rule real_sqrt_unique) auto

lemma cohort_rows: "length (rows cohort) < 30" "rows cohort \<noteq> []"
  by (simp_all add: cohort_def)

lemma cohort_quality:
  "check_data_quality (zscore (steady_env pr)) now default_thresholds cohort = Inr []"
  using cohort_columns(2)
  by (simp add: check_data_quality_def Let_def)
     (simp add: cohort_def features_of_def feature_cols_def patient_def null_cells_def rate_def
       complete_rows_def steady_env_def cells_above_def exceeds_def column_def out_of_range_def
       default_thresholds_def)

lemma cohort_truth: "ground_truth cohort = [100, 100]"
  by (simp add: ground_truth_def column_def cohort_def patient_def)

lemma cohort_predictions: "predictions persistence_predictor cohort = [101, 107]"
  by (simp add: predictions_def features_of_def cohort_def patient_def persistence_predictor_def
      feature_cols_def)

lemma cohort_performance:
  "\<exists>m. check_performance persistence_predictor now default_thresholds cohort = Inr (Some m, [])"
  using cohort_columns(1,2)
  by (simp add: check_performance_def Let_def cohort_errors cohort_truth cohort_predictions
      calculate_clarke_metrics_def clarke_zone_def root_mean_square_def sqrt_25 rmse_alerts_def
      default_thresholds_def full_percentage zero_percentage float_add_def to_double_100)

lemma cohort_bias_stage_skipped:
  "bias_stage pr now th cohort (Some [''age_group'', ''bmi_category'']) = Inr []"
  using cohort_gate by (simp add: bias_stage_def)

lemma cohort_bias_stage_run:
  "bias_stage persistence_predictor now default_thresholds cohort (Some [''age_group''])
     = Inr [new_alert now ''WARNING'' ''BIAS_DRIFT'' ''subgroup_disparity_age_group'' 6 2]"
  using cohort_columns
  by (simp add: bias_stage_def bias_gate_def check_bias_drift_def Let_def cohort_errors
      cohort_bias_alerts)

lemma cohort_cycle_skipped:
  "is_report (fst (check_drift (steady_env persistence_predictor) mon0 cohort
       (Some [''age_group'', ''bmi_category''])))
   \<and> produced_alerts (fst (check_drift (steady_env persistence_predictor) mon0 cohort
       (Some [''age_group'', ''bmi_category'']))) = []"
  if "thresholds mon0 = default_thresholds" for mon0
proof -
  obtain m where p: "check_performance persistence_predictor ''2024-01-01T00:00:00''
      default_thresholds cohort = Inr (Some m, [])"
    using cohort_performance by blast
  show ?thesis
    using that cohort_rows(1) p
    by (simp add: check_drift_def steady_env_def cohort_quality [unfolded steady_env_def, simplified]
        statistical_drift_small cohort_bias_stage_skipped Let_def generate_summary_def
        is_report_def produced_alerts_def)
qed

lemma cohort_cycle_run:
  "produced_alerts (fst (check_drift (steady_env persistence_predictor) mon0 cohort
       (Some [''age_group''])))
     = [new_alert ''2024-01-01T00:00:00'' ''WARNING'' ''BIAS_DRIFT'' ''subgroup_disparity_age_group'' 6 2]"
  if "thresholds mon0 = default_thresholds" for mon0
proof -
  obtain m where p: "check_performance persistence_predictor ''2024-01-01T00:00:00''
      default_thresholds cohort = Inr (Some m, [])"
    using cohort_performance by blast
  show ?thesis
    using that cohort_rows(1) p
    by (simp add: check_drift_def steady_env_def cohort_quality [unfolded steady_env_def, simplified]
        statistical_drift_small cohort_bias_stage_run Let_def generate_summary_def
        produced_alerts_def)
qed

lemma bias_alerts_absent:
  "\<not> present_in_copy data c \<Longrightarrow> bias_alerts now th (with_errors data errs) c = Inr []"
  by (simp add: bias_alerts_def with_errors_def present_in_copy_def)

lemma collect_alerts_skip:
  assumes "\<And>x. \<not> P x \<Longrightarrow> f x = Inr []"
  shows "collect_alerts f xs = collect_alerts f (filter P xs)"
proof (induction xs)
  case Nil
  show ?case by simp
next
  case (Cons x xs)
  show ?case
  proof (cases "P x")
    case True
    with Cons show ?thesis by (auto split: sum.splits)
  next
    case False
    with assms have "f x = Inr []" by simp
    with False Cons show ?thesis by (simp split: sum.splits)
  qed
qed

lemma check_bias_drift_filter:
  "check_bias_drift pr now th data cols
     = check_bias_drift pr now th data (filter (present_in_copy data) cols)"
  unfolding check_bias_drift_def Let_def
  using collect_alerts_skip [of "present_in_copy data"
      "bias_alerts now th (with_errors data (prediction_error pr data))" cols]
  by (simp add: bias_alerts_absent)

text \<open>A column that is present but has no non-null label makes the check raise.\<close>

lemma bias_alerts_no_label:
  assumes "demo_col \<in> set (columns data)" and "dropna (column data demo_col) = []"
  shows "bias_alerts now th data demo_col = Inl ValueError"
  using assms by (simp add: bias_alerts_def subgroup_rmse_def Let_def)

lemma bias_gate_iff:
  "bias_gate demographic_cols data \<longleftrightarrow>
     (\<exists>cols. demographic_cols = Some cols \<and> cols \<noteq> [] \<and> set cols \<subseteq> set (columns data))"
  by (auto simp: bias_gate_def list_all_iff split: option.splits)

text \<open>
  Claim C7, amended. In a cycle the bias-drift check is run exactly when demographic
  columns are declared, the list is not empty and every declared column is in the
  batch; otherwise it is skipped entirely, with no alert and no error. Without ground
  truth it yields no alert and no error. When it runs with ground truth and features
  present it goes through the declared columns in order, collecting the alerts of each
  and stopping at the first that raises. \<^verbatim>\<open>_check_bias_drift\<close> on its own passes
  over a column that is absent without aborting.
\<close>

theorem bias_check_gate:
  "(bias_gate demographic_cols data \<longleftrightarrow>
      (\<exists>cols. demographic_cols = Some cols \<and> cols \<noteq> [] \<and> set cols \<subseteq> set (columns data)))
   \<and> (\<not> bias_gate demographic_cols data \<longrightarrow>
        bias_stage pr now th data demographic_cols = Inr [])
   \<and> (''target_30min'' \<notin> set (columns data) \<longrightarrow>
        bias_stage pr now th data demographic_cols = Inr [])
   \<and> (bias_gate demographic_cols data \<and> ''target_30min'' \<in> set (columns data)
        \<and> set feature_cols \<subseteq> set (columns data) \<longrightarrow>
        bias_stage pr now th data demographic_cols =
          collect_alerts (bias_alerts now th (with_errors data (prediction_error pr data)))
            (the demographic_cols))
   \<and> check_bias_drift pr now th data declared
       = check_bias_drift pr now th data (filter (present_in_copy data) declared)"
proof (intro conjI)
  show "bias_gate demographic_cols data \<longleftrightarrow>
      (\<exists>cols. demographic_cols = Some cols \<and> cols \<noteq> [] \<and> set cols \<subseteq> set (columns data))"
    by (rule bias_gate_iff)
  show "\<not> bias_gate demographic_cols data \<longrightarrow> bias_stage pr now th data demographic_cols = Inr []"
    by (simp add: bias_stage_def)
  show "''target_30min'' \<notin> set (columns data) \<longrightarrow> bias_stage pr now th data demographic_cols = Inr []"
    by (simp add: bias_stage_no_target)
  show "bias_gate demographic_cols data \<and> ''target_30min'' \<in> set (columns data)
        \<and> set feature_cols \<subseteq> set (columns data) \<longrightarrow>
        bias_stage pr now th data demographic_cols =
          collect_alerts (bias_alerts now th (with_errors data (prediction_error pr data)))
            (the demographic_cols)"
    by (simp add: bias_stage_def check_bias_drift_def Let_def)
  show "check_bias_drift pr now th data declared
       = check_bias_drift pr now th data (filter (present_in_copy data) declared)"
    by (rule check_bias_drift_filter)
qed

text \<open>
  The cohort with \<^verbatim>\<open>age_group\<close> and the absent \<^verbatim>\<open>bmi_category\<close> declared: skipped.
  With \<^verbatim>\<open>age_group\<close> alone declared: run, and the disparity 6 is reported.
\<close>

theorem bias_check_gate_witness:
  "bias_stage persistence_predictor ''t'' default_thresholds cohort
      (Some [''age_group'', ''bmi_category'']) = Inr []
   \<and> bias_stage persistence_predictor ''t'' default_thresholds cohort (Some [''age_group''])
      = Inr [new_alert ''t'' ''WARNING'' ''BIAS_DRIFT'' ''subgroup_disparity_age_group'' 6 2]"
proof -
  have g: "bias_gate (Some [''age_group'']) cohort"
    using cohort_columns(3) by (simp add: bias_gate_def)
  from bias_check_gate [of "Some [''age_group'', ''bmi_category'']" cohort persistence_predictor
      "''t''" default_thresholds "[]"] cohort_gate
  have 1: "bias_stage persistence_predictor ''t'' default_thresholds cohort
      (Some [''age_group'', ''bmi_category'']) = Inr []"
    by blast
  from bias_check_gate [of "Some [''age_group'']" cohort persistence_predictor
      "''t''" default_thresholds "[]"] g cohort_columns(1,2)
  have 2: "bias_stage persistence_predictor ''t'' default_thresholds cohort (Some [''age_group''])
      = Inr [new_alert ''t'' ''WARNING'' ''BIAS_DRIFT'' ''subgroup_disparity_age_group'' 6 2]"
    by (simp add: cohort_errors cohort_bias_alerts)
  from 1 2 show ?thesis by (rule conjI)
qed

text \<open>
  Ground truth and the declared column \<^verbatim>\<open>age_group\<close> are present, the other declared
  column \<^verbatim>\<open>bmi_category\<close> is not: the cycle returns a report without any alert,
  although \<^verbatim>\<open>_check_bias_drift\<close> on the same input yields a bias alert, so the check
  was not run.
\<close>

theorem bias_check_skipped_counterexample:
  "''target_30min'' \<in> set (columns cohort)
   \<and> ''age_group'' \<in> set (columns cohort)
   \<and> is_report (fst (check_drift (steady_env persistence_predictor)
        (new_monitor default_thresholds cohort) cohort (Some [''age_group'', ''bmi_category''])))
   \<and> produced_alerts (fst (check_drift (steady_env persistence_predictor)
        (new_monitor default_thresholds cohort) cohort (Some [''age_group'', ''bmi_category''])))
       = []
   \<and> check_bias_drift persistence_predictor ''t'' default_thresholds cohort
        [''age_group'', ''bmi_category'']
       = Inr [new_alert ''t'' ''WARNING'' ''BIAS_DRIFT'' ''subgroup_disparity_age_group'' 6 2]"
proof -
  have "thresholds (new_monitor default_thresholds cohort) = default_thresholds"
    by (simp add: new_monitor_def)
  from cohort_cycle_skipped [OF this] cohort_columns(1,3) cohort_check_bias [of "''t''"]
  show ?thesis by simp
qed

lemma cohort_cycle_run_state:
  assumes "thresholds mon0 = default_thresholds"
  shows "\<exists>r. check_drift (steady_env persistence_predictor) mon0 cohort (Some [''age_group''])
     = (Inr r, mon0\<lparr>alert_history := alert_history mon0 @
          [new_alert ''2024-01-01T00:00:00'' ''WARNING'' ''BIAS_DRIFT''
             ''subgroup_disparity_age_group'' 6 2]\<rparr>)"
proof -
  obtain m where p: "check_performance persistence_predictor ''2024-01-01T00:00:00''
      default_thresholds cohort = Inr (Some m, [])"
    using cohort_performance by blast
  show ?thesis
    using assms cohort_rows(1) p
    by (simp add: check_drift_def steady_env_def cohort_quality [unfolded steady_env_def, simplified]
        statistical_drift_small cohort_bias_stage_run Let_def generate_summary_def)
qed

text \<open>
  One cycle on the cohort with \<^verbatim>\<open>age_group\<close> declared: the report and the history
  hold one \<^verbatim>\<open>WARNING\<close> alert, and the compliance report counts no retraining event.
\<close>

theorem alerts_are_warning_or_critical_witness:
  "produced_alerts (fst (check_drift (steady_env persistence_predictor)
       (new_monitor default_thresholds cohort) cohort (Some [''age_group''])))
     = [new_alert ''2024-01-01T00:00:00'' ''WARNING'' ''BIAS_DRIFT''
          ''subgroup_disparity_age_group'' 6 2]
   \<and> list_all graded (produced_alerts (fst (check_drift (steady_env persistence_predictor)
       (new_monitor default_thresholds cohort) cohort (Some [''age_group'']))))
   \<and> alert_history (run_cycles (new_monitor default_thresholds cohort)
        [(steady_env persistence_predictor, cohort, Some [''age_group''])])
     = [new_alert ''2024-01-01T00:00:00'' ''WARNING'' ''BIAS_DRIFT''
          ''subgroup_disparity_age_group'' 6 2]
   \<and> retraining_events (generate_pmcf_report (run_cycles (new_monitor default_thresholds cohort)
        [(steady_env persistence_predictor, cohort, Some [''age_group''])]) None None) = 0"
proof -
  let ?mon = "new_monitor default_thresholds cohort"
  have t: "thresholds ?mon = default_thresholds"
    by (simp add: new_monitor_def)
  have h: "alert_history (run_cycles ?mon
        [(steady_env persistence_predictor, cohort, Some [''age_group''])])
     = [new_alert ''2024-01-01T00:00:00'' ''WARNING'' ''BIAS_DRIFT''
          ''subgroup_disparity_age_group'' 6 2]"
    using cohort_cycle_run_state [OF t] by (auto simp: new_monitor_def)
  from alerts_are_warning_or_critical [of "steady_env persistence_predictor" ?mon cohort
      "Some [''age_group'']" default_thresholds cohort
      "[(steady_env persistence_predictor, cohort, Some [''age_group''])]" None None]
    cohort_cycle_run [OF t] h
  show ?thesis by simp
qed


end
